theory Spec2Isabelle
  imports Main
begin

section \<open>JavaScript strings and values\<close>

text \<open>
  Strings are byte lists. A thrown exception is modelled by its message: a computation
  of type \<open>string + 'a\<close> returns \<open>Inl msg\<close> when the source throws an error whose
  \<open>message\<close> is \<open>msg\<close>. HTTP header names are matched without regard to the case of
  the ASCII letters, as the \<open>Headers\<close> class does.
\<close>

definition lower_char :: "char \<Rightarrow> char" where
  "lower_char c =
     (case map_of (zip ''ABCDEFGHIJKLMNOPQRSTUVWXYZ'' ''abcdefghijklmnopqrstuvwxyz'') c of
        Some d \<Rightarrow> d | None \<Rightarrow> c)"

definition upper_char :: "char \<Rightarrow> char" where
  "upper_char c =
     (case map_of (zip ''abcdefghijklmnopqrstuvwxyz'' ''ABCDEFGHIJKLMNOPQRSTUVWXYZ'') c of
        Some d \<Rightarrow> d | None \<Rightarrow> c)"

definition asciiLower :: "string \<Rightarrow> string" where
  "asciiLower s = map lower_char s"

definition asciiUpper :: "string \<Rightarrow> string" where
  "asciiUpper s = map upper_char s"

text \<open>An optional string is truthy when it is present and not empty.\<close>

definition truthy :: "string option \<Rightarrow> bool" where
  "truthy x = (case x of None \<Rightarrow> False | Some s \<Rightarrow> s \<noteq> [])"

text \<open>\<open>a || b\<close> on optional strings.\<close>

definition or_else :: "string option \<Rightarrow> string option \<Rightarrow> string option" where
  "or_else a b = (if truthy a then a else b)"

text \<open>\<open>a || 'literal'\<close>.\<close>

definition or_default :: "string option \<Rightarrow> string \<Rightarrow> string" where
  "or_default a d = (case a of None \<Rightarrow> d | Some s \<Rightarrow> if s = [] then d else s)"

text \<open>A template literal prints an absent value as \<open>undefined\<close>.\<close>

definition interpolate :: "string option \<Rightarrow> string" where
  "interpolate a = (case a of None \<Rightarrow> ''undefined'' | Some s \<Rightarrow> s)"

text \<open>
  What \<open>JSON.parse\<close> returns is not validated by the source: a payment payload is any
  JSON value, and the source reads properties from it. Values are modelled as such.
  \<open>JUndefined\<close> is what reading a missing property gives. Numbers are the integers: a
  JSON number with a fraction, or too large to be exact as a double, is outside the
  model. An object lists each of its properties once.
\<close>

datatype json =
    JUndefined
  | JNull
  | JBool bool
  | JNum int
  | JStr string
  | JArr "json list"
  | JObj "(string \<times> json) list"

definition apostrophe :: string where
  "apostrophe = [CHR 0x27]"

definition cannotRead :: "string \<Rightarrow> string \<Rightarrow> string" where
  "cannotRead what k =
     ''Cannot read properties of '' @ what @ '' (reading '' @ apostrophe @ k @ apostrophe @ '')''"

text \<open>
  \<open>v.k\<close>: a \<open>TypeError\<close> on \<open>undefined\<close> and \<open>null\<close>, the property of an object, and
  \<open>undefined\<close> on any other value (none of the names the protocol reads is a property
  of a string, number, boolean or array, or of \<open>Object.prototype\<close>).
\<close>

definition property :: "json \<Rightarrow> string \<Rightarrow> string + json" where
  "property v k =
     (case v of
        JUndefined \<Rightarrow> Inl (cannotRead ''undefined'' k)
      | JNull \<Rightarrow> Inl (cannotRead ''null'' k)
      | JObj kvs \<Rightarrow> Inr (case map_of kvs k of None \<Rightarrow> JUndefined | Some x \<Rightarrow> x)
      | _ \<Rightarrow> Inr JUndefined)"

text \<open>
  \<open>v.k\<close> where \<open>v\<close> is known to be neither \<open>undefined\<close> nor \<open>null\<close>, because a property
  of it has been read before.
\<close>

definition field :: "json \<Rightarrow> string \<Rightarrow> json" where
  "field v k = (case property v k of Inl e \<Rightarrow> JUndefined | Inr x \<Rightarrow> x)"

definition truthyJ :: "json \<Rightarrow> bool" where
  "truthyJ v =
     (case v of
        JUndefined \<Rightarrow> False
      | JNull \<Rightarrow> False
      | JBool b \<Rightarrow> b
      | JNum n \<Rightarrow> n \<noteq> 0
      | JStr s \<Rightarrow> s \<noteq> []
      | _ \<Rightarrow> True)"

text \<open>Arrays and objects are compared by identity, all other values by their content.\<close>

definition isObject :: "json \<Rightarrow> bool" where
  "isObject v = (case v of JArr xs \<Rightarrow> True | JObj kvs \<Rightarrow> True | _ \<Rightarrow> False)"

section \<open>The external library\<close>

text \<open>
  The functions of \<open>ethers\<close>, \<open>JSON\<close>, \<open>Buffer\<close>, \<open>RegExp\<close> and \<open>String\<close> that the
  protocol calls are not code of this repository. They are taken as parameters,
  collected in one record. A function that can throw returns \<open>Inl\<close> of the message.
  Where the source hands a value of the payload to the library, the parameter takes
  the JSON value. Clock readings (\<open>Date.now()\<close>, in milliseconds) are passed as
  arguments, one per place where the source reads the clock.
\<close>

datatype abi_type = AbiBytes32 | AbiUint256 | AbiAddress | AbiString

record PaymentRequirements =
  scheme :: string
  network :: string
  maxAmountRequired :: string
  payTo :: string
  resource :: string
  description :: string
  mimeType :: string
  contractAddress :: "string option"
  bountyId :: "string option"

record SettlementResponse =
  success :: bool
  txHash :: "string option"
  receipt :: "string option"
  error :: "string option"

record RoutePaymentConfig =
  price :: string
  description :: string
  useZkProof :: "bool option"
  bountyId :: "string option"

type_synonym RoutesConfig = "(string \<times> RoutePaymentConfig) list"

text \<open>
  A submitted transaction: its hash, and what \<open>wait()\<close> gives: an exception, no
  receipt, or a receipt with its hash.
\<close>

record Transaction =
  hash :: string
  wait :: "string + string option"

text \<open>A signer is its \<open>sendTransaction(to, value)\<close>.\<close>

type_synonym Signer = "string \<Rightarrow> int \<Rightarrow> string + Transaction"

record library =
  parseEther :: "json \<Rightarrow> string + int"
  abiEncode :: "(abi_type \<times> json) list \<Rightarrow> string + string"
  keccak256 :: "string \<Rightarrow> string"
  getBytes :: "string \<Rightarrow> string"
  verifyMessage :: "string \<Rightarrow> json \<Rightarrow> string + string"
  jsonParse :: "string \<Rightarrow> string + json"
  jsonRequirements :: "PaymentRequirements list \<Rightarrow> string"
  jsonSettlement :: "SettlementResponse \<Rightarrow> string"
  base64Encode :: "string \<Rightarrow> string"
  base64Decode :: "string \<Rightarrow> string"
  numberToString :: "int \<Rightarrow> string"
  arrayToString :: "json list \<Rightarrow> string + string"
  stringToNumber :: "string \<Rightarrow> int option"
  toLowerCase :: "string \<Rightarrow> string"
  toUpperCase :: "string \<Rightarrow> string"
  regexTest :: "string \<Rightarrow> string \<Rightarrow> string + bool"

definition ZeroAddress :: string where
  "ZeroAddress = ''0x0000000000000000000000000000000000000000''"

text \<open>
  A parsed object never has a callable property. So one with a property \<open>toString\<close>
  of its own cannot be converted to a string or to a number: the inherited \<open>valueOf\<close>
  returns the object itself, and a \<open>TypeError\<close> is thrown. Any other object converts
  to \<open>[object Object]\<close>. What an array converts to is the library's matter.
\<close>

definition notPrimitive :: string where
  "notPrimitive = ''Cannot convert object to primitive value''"

definition objectToString :: "(string \<times> json) list \<Rightarrow> string + string" where
  "objectToString kvs =
     (if map_of kvs ''toString'' = None then Inr ''[object Object]'' else Inl notPrimitive)"

text \<open>
  The number a value stands for in arithmetic and comparisons, \<open>None\<close> for \<open>NaN\<close>.
  An array or an object is converted to a string first.
\<close>

definition toNumber :: "library \<Rightarrow> json \<Rightarrow> string + int option" where
  "toNumber lib v =
     (case v of
        JUndefined \<Rightarrow> Inr None
      | JNull \<Rightarrow> Inr (Some 0)
      | JBool b \<Rightarrow> Inr (Some (if b then 1 else 0))
      | JNum n \<Rightarrow> Inr (Some n)
      | JStr s \<Rightarrow> Inr (stringToNumber lib s)
      | JArr xs \<Rightarrow>
          (case arrayToString lib xs of
             Inl e \<Rightarrow> Inl e
           | Inr s \<Rightarrow> Inr (stringToNumber lib s))
      | JObj kvs \<Rightarrow>
          (case objectToString kvs of
             Inl e \<Rightarrow> Inl e
           | Inr s \<Rightarrow> Inr (stringToNumber lib s)))"

text \<open>\<open>now - v > bound\<close> and \<open>v > bound\<close>; a comparison with \<open>NaN\<close> is false.\<close>

definition ageExceeds :: "library \<Rightarrow> int \<Rightarrow> json \<Rightarrow> int \<Rightarrow> string + bool" where
  "ageExceeds lib now v bound =
     (case toNumber lib v of
        Inl e \<Rightarrow> Inl e
      | Inr None \<Rightarrow> Inr False
      | Inr (Some t) \<Rightarrow> Inr (now - t > bound))"

definition exceeds :: "library \<Rightarrow> json \<Rightarrow> int \<Rightarrow> string + bool" where
  "exceeds lib v bound =
     (case toNumber lib v of
        Inl e \<Rightarrow> Inl e
      | Inr None \<Rightarrow> Inr False
      | Inr (Some t) \<Rightarrow> Inr (t > bound))"

text \<open>
  \<open>v.toLowerCase()\<close>, where \<open>expr\<close> is the text of the expression \<open>v\<close>: only a
  string has this function.
\<close>

definition lowerCased :: "library \<Rightarrow> json \<Rightarrow> string \<Rightarrow> string + string" where
  "lowerCased lib v expr =
     (case v of
        JStr s \<Rightarrow> Inr (toLowerCase lib s)
      | JUndefined \<Rightarrow> Inl (cannotRead ''undefined'' ''toLowerCase'')
      | JNull \<Rightarrow> Inl (cannotRead ''null'' ''toLowerCase'')
      | _ \<Rightarrow> Inl (expr @ ''.toLowerCase is not a function''))"

text \<open>A value inside a template literal: a string as it is, any other value printed.\<close>

definition templateString :: "library \<Rightarrow> json \<Rightarrow> string + string" where
  "templateString lib v =
     (case v of
        JUndefined \<Rightarrow> Inr ''undefined''
      | JNull \<Rightarrow> Inr ''null''
      | JBool b \<Rightarrow> Inr (if b then ''true'' else ''false'')
      | JNum n \<Rightarrow> Inr (numberToString lib n)
      | JStr s \<Rightarrow> Inr s
      | JArr xs \<Rightarrow> arrayToString lib xs
      | JObj kvs \<Rightarrow> objectToString kvs)"

section \<open>The proof engine\<close>

record ZKVerificationResult =
  valid :: bool
  error :: "string option"
  commitment :: "json option"
  nullifier :: "json option"

definition zkFail :: "string \<Rightarrow> ZKVerificationResult" where
  "zkFail msg =
     \<lparr>ZKVerificationResult.valid = False, error = Some msg, commitment = None, nullifier = None\<rparr>"

text \<open>
  The constant \<open>proofMessage\<close>: \<open>keccak256\<close> of the ABI encoding of the five hashes
  and the timestamp. \<open>zkp\<close> is the proof and \<open>body\<close> its \<open>proof\<close> property.
\<close>

definition proofMessage :: "library \<Rightarrow> json \<Rightarrow> json \<Rightarrow> string + string" where
  "proofMessage lib zkp body =
     (case abiEncode lib
        [(AbiBytes32, field zkp ''commitment''),
         (AbiBytes32, field zkp ''nullifier''),
         (AbiBytes32, field body ''amountHash''),
         (AbiBytes32, field body ''senderHash''),
         (AbiBytes32, field body ''receiverHash''),
         (AbiUint256, field body ''timestamp'')] of
        Inl e \<Rightarrow> Inl e
      | Inr enc \<Rightarrow> Inr (keccak256 lib enc))"

text \<open>
  The body of the \<open>try\<close> block of \<open>verifyPaymentProof\<close>; \<open>nowMs\<close> is what \<open>Date.now()\<close>
  returns there. Reading \<open>proof.publicInputs.chainId\<close> and \<open>proof.proof.timestamp\<close>
  throws when the first property is missing; the later reads are from values already
  read from.
\<close>

definition verifyPaymentProof_try ::
  "library \<Rightarrow> int \<Rightarrow> json \<Rightarrow> int \<Rightarrow> string \<Rightarrow> string + ZKVerificationResult" where
  "verifyPaymentProof_try lib nowMs zkp expectedChainId expectedContractAddress =
     (case property zkp ''publicInputs'' of
        Inl e \<Rightarrow> Inl e
      | Inr publicInputs \<Rightarrow>
     (case property publicInputs ''chainId'' of
        Inl e \<Rightarrow> Inl e
      | Inr chainId \<Rightarrow>
          if chainId \<noteq> JNum expectedChainId
          then Inr (zkFail ''Chain ID mismatch'')
          else
     (case lowerCased lib (field publicInputs ''contractAddress'')
             ''proof.publicInputs.contractAddress'' of
        Inl e \<Rightarrow> Inl e
      | Inr lowered \<Rightarrow>
          if lowered \<noteq> toLowerCase lib expectedContractAddress
          then Inr (zkFail ''Contract address mismatch'')
          else
            let now = nowMs div 1000; body = field zkp ''proof'' in
     (case property body ''timestamp'' of
        Inl e \<Rightarrow> Inl e
      | Inr timestamp \<Rightarrow>
     (case ageExceeds lib now timestamp 3600 of
        Inl e \<Rightarrow> Inl e
      | Inr True \<Rightarrow> Inr (zkFail ''Proof expired'')
      | Inr False \<Rightarrow>
     (case exceeds lib timestamp (now + 60) of
        Inl e \<Rightarrow> Inl e
      | Inr True \<Rightarrow> Inr (zkFail ''Proof timestamp in the future'')
      | Inr False \<Rightarrow>
     (case proofMessage lib zkp body of
        Inl e \<Rightarrow> Inl e
      | Inr message \<Rightarrow>
     (case verifyMessage lib (getBytes lib message) (field body ''signature'') of
        Inl e \<Rightarrow> Inl e
      | Inr recoveredAddress \<Rightarrow>
          if recoveredAddress = [] \<or> recoveredAddress = ZeroAddress
          then Inr (zkFail ''Invalid proof signature'')
          else Inr \<lparr>ZKVerificationResult.valid = True, error = None,
                    commitment = Some (field zkp ''commitment''),
                    nullifier = Some (field zkp ''nullifier'')\<rparr>))))))))"

definition verifyPaymentProof ::
  "library \<Rightarrow> int \<Rightarrow> json \<Rightarrow> int \<Rightarrow> string \<Rightarrow> ZKVerificationResult" where
  "verifyPaymentProof lib nowMs zkp expectedChainId expectedContractAddress =
     (case verifyPaymentProof_try lib nowMs zkp expectedChainId expectedContractAddress of
        Inl msg \<Rightarrow> zkFail (''Proof verification failed: '' @ msg)
      | Inr r \<Rightarrow> r)"

subsection \<open>The nullifier store\<close>

text \<open>
  The module-level \<open>usedNullifiers\<close> set is the state, passed explicitly. A \<open>Set\<close>
  compares arrays and objects by identity, and a parsed value is a fresh one: it is
  never found, and adding it changes nothing that can be observed.
\<close>

type_synonym store = "json set"

definition isNullifierUsed :: "json \<Rightarrow> store \<Rightarrow> bool" where
  "isNullifierUsed n usedNullifiers = (\<not> isObject n \<and> n \<in> usedNullifiers)"

definition markNullifierUsed :: "json \<Rightarrow> store \<Rightarrow> store" where
  "markNullifierUsed n usedNullifiers = (if isObject n then usedNullifiers else insert n usedNullifiers)"

definition clearNullifiers :: "store \<Rightarrow> store" where
  "clearNullifiers usedNullifiers = {}"

section \<open>The negotiation protocol\<close>

subsection \<open>Requests and responses\<close>

text \<open>
  The \<open>Headers\<close> class stores header names in lower case, and \<open>get\<close> and \<open>set\<close> lower
  their argument. A response body is either the JSON object of a 402 response or the
  opaque body a business handler produced.
\<close>

type_synonym Headers = "(string \<times> string) list"

definition headers_get :: "Headers \<Rightarrow> string \<Rightarrow> string option" where
  "headers_get hs name = map_of hs (asciiLower name)"

definition headers_set :: "string \<Rightarrow> string \<Rightarrow> Headers \<Rightarrow> Headers" where
  "headers_set name v hs =
     filter (\<lambda>kv. fst kv \<noteq> asciiLower name) hs @ [(asciiLower name, v)]"

record Request =
  url :: string
  headers :: Headers

datatype Body =
    PaymentRequiredBody int string "PaymentRequirements list"
  | HandlerBody string

record Response =
  status :: int
  body :: Body
  headers :: Headers

record VerifyResult =
  valid :: bool
  payload :: "json option"
  error :: "string option"

subsection \<open>Encoding and decoding\<close>

definition encodePaymentRequired :: "library \<Rightarrow> PaymentRequirements list \<Rightarrow> string" where
  "encodePaymentRequired lib requirements = base64Encode lib (jsonRequirements lib requirements)"

definition decodePaymentPayload :: "library \<Rightarrow> string \<Rightarrow> string + json" where
  "decodePaymentPayload lib encoded = jsonParse lib (base64Decode lib encoded)"

definition encodeSettlementResponse :: "library \<Rightarrow> SettlementResponse \<Rightarrow> string" where
  "encodeSettlementResponse lib response = base64Encode lib (jsonSettlement lib response)"

subsection \<open>The 402 response\<close>

definition createPaymentRequiredResponse ::
  "library \<Rightarrow> PaymentRequirements list \<Rightarrow> string option \<Rightarrow> Response" where
  "createPaymentRequiredResponse lib requirements message =
     (let encoded = encodePaymentRequired lib requirements in
      \<lparr>status = 402,
       body = PaymentRequiredBody 1 (or_default message ''Payment Required'') requirements,
       headers = headers_set ''Content-Type'' ''application/json''
                   (headers_set ''PAYMENT-REQUIRED'' encoded [])\<rparr>)"

subsection \<open>Verification\<close>

definition vFail :: "string \<Rightarrow> VerifyResult" where
  "vFail msg = \<lparr>VerifyResult.valid = False, payload = None, error = Some msg\<rparr>"

text \<open>
  The block \<open>if (payload.scheme === 'zk-exact' && payload.payload.zkProof)\<close>: \<open>Some r\<close>
  when it returns \<open>r\<close>, \<open>None\<close> when control falls through. \<open>nowMsZk\<close> is the clock
  reading inside \<open>verifyPaymentProof\<close>. The block is reached after
  \<open>payload.payload.amount\<close> has been read, so that its reads do not throw.
\<close>

definition zkStep ::
  "library \<Rightarrow> int \<Rightarrow> json \<Rightarrow> PaymentRequirements \<Rightarrow> int \<Rightarrow> store \<Rightarrow> VerifyResult option" where
  "zkStep lib nowMsZk p requirements expectedChainId usedNullifiers =
     (let zkProof = field (field p ''payload'') ''zkProof'' in
      if field p ''scheme'' = JStr ''zk-exact'' \<and> truthyJ zkProof
      then
        (let zkResult = verifyPaymentProof lib nowMsZk zkProof expectedChainId
                          (or_default (PaymentRequirements.contractAddress requirements) [])
         in if \<not> ZKVerificationResult.valid zkResult
            then Some (vFail (''ZK proof invalid: ''
                               @ interpolate (ZKVerificationResult.error zkResult)))
            else if isNullifierUsed (field zkProof ''nullifier'') usedNullifiers
            then Some (vFail ''Payment already used (nullifier spent)'')
            else None)
      else None)"

text \<open>
  The block \<open>if (payload.scheme === 'exact' && payload.payload.signature)\<close>, which can
  throw: \<open>Inr (Some r)\<close> when it returns \<open>r\<close>, \<open>Inr None\<close> when control falls through.
\<close>

definition exactStep :: "library \<Rightarrow> json \<Rightarrow> int \<Rightarrow> string + VerifyResult option" where
  "exactStep lib p paidAmount =
     (let inner = field p ''payload'' in
      if field p ''scheme'' = JStr ''exact'' \<and> truthyJ (field inner ''signature'')
      then
        (case abiEncode lib
                [(AbiAddress, field inner ''sender''),
                 (AbiUint256, JNum paidAmount),
                 (AbiString, field inner ''nonce''),
                 (AbiUint256, field inner ''timestamp'')] of
           Inl e \<Rightarrow> Inl e
         | Inr enc \<Rightarrow>
             (case verifyMessage lib (getBytes lib (keccak256 lib enc))
                     (field inner ''signature'') of
                Inl e \<Rightarrow> Inl e
              | Inr recoveredAddress \<Rightarrow>
                  (case lowerCased lib (field inner ''sender'') ''payload.payload.sender'' of
                     Inl e \<Rightarrow> Inl e
                   | Inr senderLowered \<Rightarrow>
                       if toLowerCase lib recoveredAddress \<noteq> senderLowered
                       then Inr (Some (vFail ''Invalid payment signature''))
                       else Inr None)))
      else Inr None)"

text \<open>
  The \<open>try\<close> block of \<open>verifyPaymentFromRequest\<close>, on the header's value. \<open>nowMs\<close> is
  the clock reading of the expiry check. Reading \<open>payload.x402Version\<close> throws when
  the decoded value is \<open>null\<close>, and reading \<open>payload.payload.amount\<close> throws when it
  has no \<open>payload\<close> property.
\<close>

definition verifyPaymentFromRequest_try ::
  "library \<Rightarrow> int \<Rightarrow> int \<Rightarrow> string \<Rightarrow> PaymentRequirements \<Rightarrow> int \<Rightarrow> store
     \<Rightarrow> string + VerifyResult" where
  "verifyPaymentFromRequest_try lib nowMs nowMsZk paymentHeader requirements expectedChainId
       usedNullifiers =
     (case decodePaymentPayload lib paymentHeader of
        Inl e \<Rightarrow> Inl e
      | Inr p \<Rightarrow>
     (case property p ''x402Version'' of
        Inl e \<Rightarrow> Inl e
      | Inr version \<Rightarrow>
          if version \<noteq> JNum 1 then Inr (vFail ''Unsupported x402 version'')
          else if field p ''scheme'' \<noteq> JStr (PaymentRequirements.scheme requirements)
          then Inr (vFail ''Payment scheme mismatch'')
          else
     (case parseEther lib (JStr (maxAmountRequired requirements)) of
        Inl e \<Rightarrow> Inl e
      | Inr requiredAmount \<Rightarrow>
     (case property (field p ''payload'') ''amount'' of
        Inl e \<Rightarrow> Inl e
      | Inr amount \<Rightarrow>
     (case parseEther lib amount of
        Inl e \<Rightarrow> Inl e
      | Inr paidAmount \<Rightarrow>
          if paidAmount < requiredAmount
          then Inr (vFail ''Insufficient payment amount'')
          else
            let now = nowMs div 1000 in
     (case ageExceeds lib now (field (field p ''payload'') ''timestamp'') 300 of
        Inl e \<Rightarrow> Inl e
      | Inr True \<Rightarrow> Inr (vFail ''Payment expired'')
      | Inr False \<Rightarrow>
          (case zkStep lib nowMsZk p requirements expectedChainId usedNullifiers of
             Some r \<Rightarrow> Inr r
           | None \<Rightarrow>
               (case exactStep lib p paidAmount of
                  Inl e \<Rightarrow> Inl e
                | Inr (Some r) \<Rightarrow> Inr r
                | Inr None \<Rightarrow>
                    Inr \<lparr>VerifyResult.valid = True, payload = Some p,
                         error = None\<rparr>))))))))"

definition verifyPaymentFromRequest ::
  "library \<Rightarrow> int \<Rightarrow> int \<Rightarrow> Request \<Rightarrow> PaymentRequirements \<Rightarrow> int \<Rightarrow> store \<Rightarrow> VerifyResult" where
  "verifyPaymentFromRequest lib nowMs nowMsZk request requirements expectedChainId
       usedNullifiers =
     (let paymentHeader =
            or_else (headers_get (Request.headers request) ''payment-signature'')
                    (headers_get (Request.headers request) ''x-payment'')
      in case paymentHeader of
           None \<Rightarrow> vFail ''No payment header provided''
         | Some h \<Rightarrow>
             if h = [] then vFail ''No payment header provided''
             else
               (case verifyPaymentFromRequest_try lib nowMs nowMsZk h requirements
                       expectedChainId usedNullifiers of
                  Inl msg \<Rightarrow> vFail (''Payment verification failed: '' @ msg)
                | Inr r \<Rightarrow> r))"

subsection \<open>Settlement\<close>

text \<open>
  The \<open>try\<close> block of \<open>settlePayment\<close>, with the store it leaves: the nullifier is
  marked first, so the store is updated whether or not the rest throws.
\<close>

definition markStep :: "json \<Rightarrow> store \<Rightarrow> string + store" where
  "markStep p usedNullifiers =
     (case property p ''scheme'' of
        Inl e \<Rightarrow> Inl e
      | Inr declared \<Rightarrow>
          if declared = JStr ''zk-exact''
          then
            (case property (field p ''payload'') ''zkProof'' of
               Inl e \<Rightarrow> Inl e
             | Inr zkProof \<Rightarrow>
                 if truthyJ zkProof
                 then Inr (markNullifierUsed (field zkProof ''nullifier'') usedNullifiers)
                 else Inr usedNullifiers)
          else Inr usedNullifiers)"

definition offchainSettlement :: "library \<Rightarrow> int \<Rightarrow> json \<Rightarrow> string + SettlementResponse" where
  "offchainSettlement lib nowMs p =
     (case property (field p ''payload'') ''nonce'' of
        Inl e \<Rightarrow> Inl e
      | Inr nonce \<Rightarrow>
          (case templateString lib nonce of
             Inl e \<Rightarrow> Inl e
           | Inr printed \<Rightarrow>
               Inr \<lparr>success = True, txHash = None,
                    receipt = Some (''offchain:'' @ printed @ '':'' @ numberToString lib nowMs),
                    error = None\<rparr>))"

definition onchainSettlement ::
  "library \<Rightarrow> int \<Rightarrow> json \<Rightarrow> PaymentRequirements \<Rightarrow> Signer \<Rightarrow> string + SettlementResponse" where
  "onchainSettlement lib nowMs p requirements sendTransaction =
     (case property (field p ''payload'') ''amount'' of
        Inl e \<Rightarrow> Inl e
      | Inr amount \<Rightarrow>
     (case parseEther lib amount of
        Inl e \<Rightarrow> Inl e
      | Inr v \<Rightarrow>
          (case sendTransaction (payTo requirements) v of
             Inl e \<Rightarrow> Inl e
           | Inr tx \<Rightarrow>
               (case wait tx of
                  Inl e \<Rightarrow> Inl e
                | Inr receiptHash \<Rightarrow>
                    (let h = or_default receiptHash (hash tx) in
                     Inr \<lparr>success = True, txHash = Some h,
                          receipt = Some (''settled:'' @ h @ '':'' @ numberToString lib nowMs),
                          error = None\<rparr>)))))"

definition settlePayment_try ::
  "library \<Rightarrow> int \<Rightarrow> json \<Rightarrow> PaymentRequirements \<Rightarrow> Signer option \<Rightarrow> store
     \<Rightarrow> (string + SettlementResponse) \<times> store" where
  "settlePayment_try lib nowMs p requirements adminSigner usedNullifiers =
     (case markStep p usedNullifiers of
        Inl e \<Rightarrow> (Inl e, usedNullifiers)
      | Inr marked \<Rightarrow>
          (case adminSigner of
             Some sendTransaction \<Rightarrow>
               if truthy (PaymentRequirements.contractAddress requirements)
               then onchainSettlement lib nowMs p requirements sendTransaction
               else offchainSettlement lib nowMs p
           | None \<Rightarrow> offchainSettlement lib nowMs p,
           marked))"

definition settlePayment ::
  "library \<Rightarrow> int \<Rightarrow> json \<Rightarrow> PaymentRequirements \<Rightarrow> Signer option \<Rightarrow> store
     \<Rightarrow> SettlementResponse \<times> store" where
  "settlePayment lib nowMs p requirements adminSigner usedNullifiers =
     (case settlePayment_try lib nowMs p requirements adminSigner usedNullifiers of
        (Inl msg, marked) \<Rightarrow>
          (\<lparr>success = False, txHash = None, receipt = None,
            error = Some (''Settlement failed: '' @ msg)\<rparr>, marked)
      | (Inr r, marked) \<Rightarrow> (r, marked))"

subsection \<open>Route matching\<close>

text \<open>\<open>routePath.replace(/\*/g, '.*')\<close>.\<close>

fun replaceStar :: "string \<Rightarrow> string" where
  "replaceStar [] = []"
| "replaceStar (c # cs) =
     (if c = CHR ''*'' then ''.*'' @ replaceStar cs else c # replaceStar cs)"

text \<open>
  \<open>.replace(/\[([^\]]+)\]/g, '([^/]+)')\<close>: an opening bracket, a non-empty run of
  characters other than the closing bracket, and the closing bracket are replaced;
  an opening bracket with no such continuation is kept and the scan goes on after it.
\<close>

function replaceBracket :: "string \<Rightarrow> string" where
  "replaceBracket [] = []"
| "replaceBracket (c # cs) =
     (if c = CHR ''[''
         \<and> takeWhile (\<lambda>x. x \<noteq> CHR '']'') cs \<noteq> []
         \<and> dropWhile (\<lambda>x. x \<noteq> CHR '']'') cs \<noteq> []
      then ''([^/]+)'' @ replaceBracket (tl (dropWhile (\<lambda>x. x \<noteq> CHR '']'') cs))
      else c # replaceBracket cs)"
  by pat_completeness auto
termination
proof (relation "measure length")
  fix c :: char and cs :: string
  have "length (tl (dropWhile (\<lambda>x. x \<noteq> CHR '']'') cs)) \<le> length cs"
    using length_dropWhile_le [of "\<lambda>x. x \<noteq> CHR '']''" cs] by simp
  then show "(tl (dropWhile (\<lambda>x. x \<noteq> CHR '']'') cs), c # cs) \<in> measure length"
    by simp
qed simp_all

definition regexPattern :: "string \<Rightarrow> string" where
  "regexPattern routePath = replaceBracket (replaceStar routePath)"

text \<open>
  \<open>const [routeMethod, ...routeParts] = pattern.split(' ')\<close> and
  \<open>routeParts.join(' ')\<close>: the text before the first space, and the text after it.
\<close>

definition routeMethod :: "string \<Rightarrow> string" where
  "routeMethod pattern = takeWhile (\<lambda>x. x \<noteq> CHR '' '') pattern"

definition routePath :: "string \<Rightarrow> string" where
  "routePath pattern = drop 1 (dropWhile (\<lambda>x. x \<noteq> CHR '' '') pattern)"

text \<open>
  The \<open>for\<close> loop over \<open>Object.entries(routes)\<close>, in the order of the entries.
  Building or running the regular expression can throw, which ends the loop.
\<close>

fun matchPattern ::
  "library \<Rightarrow> string \<Rightarrow> string \<Rightarrow> RoutesConfig \<Rightarrow> string + (string \<times> RoutePaymentConfig) option" where
  "matchPattern lib pathname method [] = Inr None"
| "matchPattern lib pathname method ((pattern, config) # rest) =
     (if routeMethod pattern \<noteq> toUpperCase lib method \<and> routeMethod pattern \<noteq> ''*''
      then matchPattern lib pathname method rest
      else
        (case regexTest lib (''^'' @ regexPattern (routePath pattern) @ ''$'') pathname of
           Inl e \<Rightarrow> Inl e
         | Inr True \<Rightarrow> Inr (Some (pattern, config))
         | Inr False \<Rightarrow> matchPattern lib pathname method rest))"

definition matchRoute ::
  "library \<Rightarrow> string \<Rightarrow> string \<Rightarrow> RoutesConfig \<Rightarrow> string + (string \<times> RoutePaymentConfig) option" where
  "matchRoute lib pathname method routes =
     (let routeKey = toUpperCase lib method @ '' '' @ pathname in
      case map_of routes routeKey of
        Some config \<Rightarrow> Inr (Some (routeKey, config))
      | None \<Rightarrow> matchPattern lib pathname method routes)"

subsection \<open>The middleware\<close>

record PaymentConfig = RoutePaymentConfig +
  payTo :: string
  contractAddress :: "string option"
  chainId :: int
  network :: string

text \<open>
  A business handler reads the request and a world of its own, and returns a response
  or throws.
\<close>

type_synonym 'w Handler = "Request \<Rightarrow> 'w \<Rightarrow> (string + Response) \<times> 'w"

definition requirementsOf :: "PaymentConfig \<Rightarrow> Request \<Rightarrow> PaymentRequirements" where
  "requirementsOf config request =
     \<lparr>PaymentRequirements.scheme = (if useZkProof config = Some True then ''zk-exact'' else ''exact''),
      network = PaymentConfig.network config,
      maxAmountRequired = price config,
      payTo = PaymentConfig.payTo config,
      resource = url request,
      description = RoutePaymentConfig.description config,
      mimeType = ''application/json'',
      contractAddress = PaymentConfig.contractAddress config,
      bountyId = RoutePaymentConfig.bountyId config\<rparr>"

text \<open>
  The step \<open>if (settlement.success) response.headers.set('PAYMENT-RESPONSE', ...)\<close>.
\<close>

definition addSettlementHeader :: "library \<Rightarrow> SettlementResponse \<Rightarrow> Response \<Rightarrow> Response" where
  "addSettlementHeader lib settlement response =
     (if success settlement
      then response\<lparr>Response.headers :=
             headers_set ''PAYMENT-RESPONSE'' (encodeSettlementResponse lib settlement)
               (Response.headers response)\<rparr>
      else response)"

text \<open>
  \<open>withX402Payment(handler, config)\<close> applied to a request. The three clock readings
  are those of the expiry check, of the proof check and of the settlement. The result
  is the response (or the exception that escapes), the nullifier store and the
  handler's world. One request is run from its verification to its settlement; in the
  source the handler is awaited, and other requests can be verified and settled in the
  meantime, which is expressed by calling \<open>verifyPaymentFromRequest\<close> and
  \<open>settlePayment\<close> on the store in the order of that interleaving.
\<close>

definition withX402Payment ::
  "library \<Rightarrow> 'w Handler \<Rightarrow> PaymentConfig \<Rightarrow> int \<Rightarrow> int \<Rightarrow> int \<Rightarrow> Request \<Rightarrow> store \<Rightarrow> 'w
     \<Rightarrow> (string + Response) \<times> store \<times> 'w" where
  "withX402Payment lib handler config nowMs nowMsZk nowMsSettle request usedNullifiers w =
     (let requirements = requirementsOf config request;
          paymentResult = verifyPaymentFromRequest lib nowMs nowMsZk request requirements
                            (PaymentConfig.chainId config) usedNullifiers
      in if \<not> VerifyResult.valid paymentResult
         then (Inr (createPaymentRequiredResponse lib [requirements]
                      (VerifyResult.error paymentResult)),
               usedNullifiers, w)
         else
           (case handler request w of
              (Inl e, w') \<Rightarrow> (Inl e, usedNullifiers, w')
            | (Inr response, w') \<Rightarrow>
                (case VerifyResult.payload paymentResult of
                   None \<Rightarrow> (Inr response, usedNullifiers, w')
                 | Some p \<Rightarrow>
                     if status response < 400 \<and> truthyJ p
                     then
                       (case settlePayment lib nowMsSettle p requirements None usedNullifiers of
                          (settlement, marked) \<Rightarrow>
                            (Inr (addSettlementHeader lib settlement response), marked, w'))
                     else (Inr response, usedNullifiers, w'))))"

section \<open>Payloads of the declared types\<close>

text \<open>
  The interfaces \<open>ZKPaymentProof\<close> and \<open>PaymentPayload\<close>, and the JSON value a payload
  of these types is on the wire: an optional property that is absent is left out.
\<close>

record ZKProofComponents =
  amountHash :: string
  senderHash :: string
  receiverHash :: string
  timestamp :: int
  signature :: string

record ZKPublicInputs =
  minAmount :: string
  chainId :: int
  contractAddress :: string
  bountyId :: "string option"

record ZKPaymentProof =
  commitment :: string
  nullifier :: string
  proof' :: ZKProofComponents
  publicInputs :: ZKPublicInputs

record PaymentData =
  sender :: string
  signature :: "string option"
  zkProof :: "ZKPaymentProof option"
  amount :: string
  nonce :: string
  timestamp :: int

record PaymentPayload =
  x402Version :: int
  scheme :: string
  network :: string
  payload :: PaymentData

definition optional :: "string \<Rightarrow> json option \<Rightarrow> (string \<times> json) list" where
  "optional k v = (case v of None \<Rightarrow> [] | Some x \<Rightarrow> [(k, x)])"

definition componentsJson :: "ZKProofComponents \<Rightarrow> json" where
  "componentsJson c =
     JObj [(''amountHash'', JStr (amountHash c)),
           (''senderHash'', JStr (senderHash c)),
           (''receiverHash'', JStr (receiverHash c)),
           (''timestamp'', JNum (ZKProofComponents.timestamp c)),
           (''signature'', JStr (ZKProofComponents.signature c))]"

definition publicInputsJson :: "ZKPublicInputs \<Rightarrow> json" where
  "publicInputsJson i =
     JObj ([(''minAmount'', JStr (minAmount i)),
            (''chainId'', JNum (ZKPublicInputs.chainId i)),
            (''contractAddress'', JStr (ZKPublicInputs.contractAddress i))]
           @ optional ''bountyId'' (map_option JStr (ZKPublicInputs.bountyId i)))"

definition proofJson :: "ZKPaymentProof \<Rightarrow> json" where
  "proofJson zp =
     JObj [(''commitment'', JStr (ZKPaymentProof.commitment zp)),
           (''nullifier'', JStr (ZKPaymentProof.nullifier zp)),
           (''proof'', componentsJson (proof' zp)),
           (''publicInputs'', publicInputsJson (publicInputs zp))]"

definition dataJson :: "PaymentData \<Rightarrow> json" where
  "dataJson d =
     JObj ([(''sender'', JStr (sender d))]
           @ optional ''signature'' (map_option JStr (PaymentData.signature d))
           @ optional ''zkProof'' (map_option proofJson (zkProof d))
           @ [(''amount'', JStr (amount d)),
              (''nonce'', JStr (nonce d)),
              (''timestamp'', JNum (PaymentData.timestamp d))])"

definition payloadJson :: "PaymentPayload \<Rightarrow> json" where
  "payloadJson p =
     JObj [(''x402Version'', JNum (x402Version p)),
           (''scheme'', JStr (PaymentPayload.scheme p)),
           (''network'', JStr (PaymentPayload.network p)),
           (''payload'', dataJson (PaymentPayload.payload p))]"

section \<open>Notions used to state the properties\<close>

text \<open>
  A list of checks, each with the error reported when it fails; \<open>firstFailure\<close> is the
  error of the first check that does not hold.
\<close>

definition firstFailure :: "(bool \<times> string) list \<Rightarrow> string option" where
  "firstFailure checks = map_option snd (find (\<lambda>c. \<not> fst c) checks)"

text \<open>The four checks on a proof that come before the signature, in the stated order.\<close>

definition proofChecks ::
  "library \<Rightarrow> int \<Rightarrow> ZKPaymentProof \<Rightarrow> int \<Rightarrow> string \<Rightarrow> (bool \<times> string) list" where
  "proofChecks lib now p expectedChainId expectedContractAddress =
     [(ZKPublicInputs.chainId (publicInputs p) = expectedChainId, ''Chain ID mismatch''),
      (toLowerCase lib (ZKPublicInputs.contractAddress (publicInputs p))
         = toLowerCase lib expectedContractAddress, ''Contract address mismatch''),
      (now - ZKProofComponents.timestamp (proof' p) \<le> 3600, ''Proof expired''),
      (ZKProofComponents.timestamp (proof' p) \<le> now + 60, ''Proof timestamp in the future'')]"

text \<open>
  The binding message hash is recomputed over (commitment, nullifier, amountHash,
  senderHash, receiverHash, timestamp), and recovery of the signer from the proof's
  signature over it succeeds and yields an identity that is neither empty nor zero.
\<close>

definition signerRecovered :: "library \<Rightarrow> ZKPaymentProof \<Rightarrow> bool" where
  "signerRecovered lib p =
     (case abiEncode lib
             [(AbiBytes32, JStr (ZKPaymentProof.commitment p)),
              (AbiBytes32, JStr (ZKPaymentProof.nullifier p)),
              (AbiBytes32, JStr (amountHash (proof' p))),
              (AbiBytes32, JStr (senderHash (proof' p))),
              (AbiBytes32, JStr (receiverHash (proof' p))),
              (AbiUint256, JNum (ZKProofComponents.timestamp (proof' p)))] of
        Inl e \<Rightarrow> False
      | Inr enc \<Rightarrow>
          (case verifyMessage lib (getBytes lib (keccak256 lib enc))
                  (JStr (ZKProofComponents.signature (proof' p))) of
             Inl e \<Rightarrow> False
           | Inr a \<Rightarrow> a \<noteq> [] \<and> a \<noteq> ZeroAddress))"

definition withTimestamp :: "ZKPaymentProof \<Rightarrow> int \<Rightarrow> ZKPaymentProof" where
  "withTimestamp p t = p\<lparr>proof' := (proof' p)\<lparr>ZKProofComponents.timestamp := t\<rparr>\<rparr>"

text \<open>
  The signer recovered from the payload's signature over the hash of
  (sender, amount in base units, nonce, timestamp) is the sender, letter case aside.
\<close>

definition signerIsSender :: "library \<Rightarrow> PaymentPayload \<Rightarrow> int \<Rightarrow> bool" where
  "signerIsSender lib p paidAmount =
     (case PaymentData.signature (PaymentPayload.payload p) of
        None \<Rightarrow> False
      | Some sg \<Rightarrow>
          (case abiEncode lib
                  [(AbiAddress, JStr (sender (PaymentPayload.payload p))),
                   (AbiUint256, JNum paidAmount),
                   (AbiString, JStr (nonce (PaymentPayload.payload p))),
                   (AbiUint256, JNum (PaymentData.timestamp (PaymentPayload.payload p)))] of
             Inl e \<Rightarrow> False
           | Inr enc \<Rightarrow>
               (case verifyMessage lib (getBytes lib (keccak256 lib enc)) (JStr sg) of
                  Inl e \<Rightarrow> False
                | Inr a \<Rightarrow>
                    toLowerCase lib a = toLowerCase lib (sender (PaymentPayload.payload p)))))"

text \<open>
  The four checks on a decoded payload that come before the scheme-specific
  verification, in the stated order, amounts being integers in base units.
\<close>

definition requestChecks ::
  "PaymentPayload \<Rightarrow> PaymentRequirements \<Rightarrow> int \<Rightarrow> int \<Rightarrow> int \<Rightarrow> (bool \<times> string) list" where
  "requestChecks p requirements requiredAmount paidAmount now =
     [(x402Version p = 1, ''Unsupported x402 version''),
      (PaymentPayload.scheme p = PaymentRequirements.scheme requirements,
         ''Payment scheme mismatch''),
      (\<not> paidAmount < requiredAmount, ''Insufficient payment amount''),
      (now - PaymentData.timestamp (PaymentPayload.payload p) \<le> 300, ''Payment expired'')]"

text \<open>
  The scheme-specific verification of a decoded payload: the proof block, then the
  signature block, then acceptance, with an exception of the signature block reported
  as the \<open>catch\<close> does.
\<close>

definition schemeVerification ::
  "library \<Rightarrow> int \<Rightarrow> json \<Rightarrow> PaymentRequirements \<Rightarrow> int \<Rightarrow> store \<Rightarrow> int \<Rightarrow> VerifyResult" where
  "schemeVerification lib nowMsZk p requirements expectedChainId usedNullifiers paidAmount =
     (case zkStep lib nowMsZk p requirements expectedChainId usedNullifiers of
        Some r \<Rightarrow> r
      | None \<Rightarrow>
          (case exactStep lib p paidAmount of
             Inl e \<Rightarrow> vFail (''Payment verification failed: '' @ e)
           | Inr (Some r) \<Rightarrow> r
           | Inr None \<Rightarrow> \<lparr>VerifyResult.valid = True, payload = Some p, error = None\<rparr>))"

text \<open>
  What the proof block answers for a payload of scheme \<open>zk-exact\<close> that carries the
  proof \<open>zp\<close>: the proof's own defect, or else the spent nullifier, or else nothing.
\<close>

definition proofVerdict ::
  "library \<Rightarrow> int \<Rightarrow> ZKPaymentProof \<Rightarrow> PaymentRequirements \<Rightarrow> int \<Rightarrow> store \<Rightarrow> string option" where
  "proofVerdict lib nowMsZk zp requirements expectedChainId usedNullifiers =
     (let zkResult = verifyPaymentProof lib nowMsZk (proofJson zp) expectedChainId
                       (or_default (PaymentRequirements.contractAddress requirements) [])
      in if \<not> ZKVerificationResult.valid zkResult
         then Some (''ZK proof invalid: '' @ interpolate (ZKVerificationResult.error zkResult))
         else if JStr (ZKPaymentProof.nullifier zp) \<in> usedNullifiers
         then Some ''Payment already used (nullifier spent)''
         else None)"

text \<open>A rejection: not valid, no payload, and a non-empty reason.\<close>

definition rejection :: "VerifyResult \<Rightarrow> bool" where
  "rejection r =
     (case VerifyResult.error r of
        None \<Rightarrow> False
      | Some e \<Rightarrow> e \<noteq> [] \<and> r = vFail e)"

text \<open>The payment header a request presents, if any: \<open>PAYMENT-SIGNATURE\<close>, else \<open>X-PAYMENT\<close>.\<close>

definition presents :: "Request \<Rightarrow> string \<Rightarrow> bool" where
  "presents request h =
     (h \<noteq> [] \<and> or_else (headers_get (Request.headers request) ''payment-signature'')
                      (headers_get (Request.headers request) ''x-payment'') = Some h)"

text \<open>A sequence of later settlements, each with its clock, payload, requirements and signer.\<close>

type_synonym Settlement = "int \<times> json \<times> PaymentRequirements \<times> Signer option"

definition settleAll :: "library \<Rightarrow> Settlement list \<Rightarrow> store \<Rightarrow> store" where
  "settleAll lib calls s =
     foldl (\<lambda>used c. case c of (t, p, r, a) \<Rightarrow> snd (settlePayment lib t p r a used)) s calls"

text \<open>
  Route patterns written with plain characters, \<open>*\<close> and \<open>[name]\<close>, and the regular
  expression each part stands for: \<open>*\<close> any run of characters, \<open>[name]\<close> one
  non-empty run of characters other than the slash.
\<close>

datatype Glob = Lit char | Star | Param string

fun render :: "Glob \<Rightarrow> string" where
  "render (Lit c) = [c]"
| "render Star = ''*''"
| "render (Param name) = ''['' @ name @ '']''"

fun regexOf :: "Glob \<Rightarrow> string" where
  "regexOf (Lit c) = [c]"
| "regexOf Star = ''.*''"
| "regexOf (Param name) = ''([^/]+)''"

fun wellFormed :: "Glob \<Rightarrow> bool" where
  "wellFormed (Lit c) = (c \<noteq> CHR ''*'' \<and> c \<noteq> CHR ''['')"
| "wellFormed Star = True"
| "wellFormed (Param name) = (name \<noteq> [] \<and> CHR '']'' \<notin> set name)"

text \<open>
  A route table given by its entries: the verb (or \<open>*\<close>), the path pattern and the
  configuration. The key of an entry is verb, space, pattern as written. The verb has
  no space in it.
\<close>

type_synonym Route = "string \<times> Glob list \<times> RoutePaymentConfig"

definition routeEntry :: "Route \<Rightarrow> string \<times> RoutePaymentConfig" where
  "routeEntry r =
     (case r of (verb, globs, config) \<Rightarrow> (verb @ '' '' @ concat (map render globs), config))"

definition wellKeyed :: "Route \<Rightarrow> bool" where
  "wellKeyed r =
     (case r of (verb, globs, config) \<Rightarrow> CHR '' '' \<notin> set verb \<and> list_all wellFormed globs)"

text \<open>
  An entry is tried when its verb is the upper-cased request verb or \<open>*\<close>, and the path
  is then tested against the regular expression of the pattern, anchored at both ends.
\<close>

definition tried :: "library \<Rightarrow> string \<Rightarrow> Route \<Rightarrow> bool" where
  "tried lib requestVerb r =
     (case r of (verb, globs, config) \<Rightarrow> verb = toUpperCase lib requestVerb \<or> verb = ''*'')"

definition tested :: "library \<Rightarrow> string \<Rightarrow> Route \<Rightarrow> string + bool" where
  "tested lib pathname r =
     (case r of (verb, globs, config) \<Rightarrow>
        regexTest lib (''^'' @ concat (map regexOf globs) @ ''$'') pathname)"

section \<open>A concrete library and concrete inputs\<close>

text \<open>
  To run the definitions on examples, the library parameters are instantiated with small
  stand-ins: amounts are parsed from a table, the ABI encoding joins its arguments,
  hashing is the identity, a signature is the signer's address followed by the signed
  message, a payment header is decoded through a table of values, letter case is
  changed on the ASCII letters, and regular expressions are run by a matcher for
  literal characters, \<open>.*\<close> and \<open>([^/]+)\<close>.
\<close>

definition ex_parseEther :: "json \<Rightarrow> string + int" where
  "ex_parseEther v =
     (case v of
        JStr s \<Rightarrow>
          (case map_of [(''0.0005'', 500000000000000), (''0.001'', 1000000000000000),
                        (''0.002'', 2000000000000000)] s of
             Some n \<Rightarrow> Inr n
           | None \<Rightarrow> Inl ''invalid FixedNumber string value'')
      | _ \<Rightarrow> Inl ''value must be a string'')"

fun ex_abi :: "abi_type \<times> json \<Rightarrow> string option" where
  "ex_abi (AbiUint256, JNum n) = Some (if n < 0 then ''-;'' else ''+;'')"
| "ex_abi (AbiBytes32, JStr s) = Some (s @ '';'')"
| "ex_abi (AbiAddress, JStr s) = Some (s @ '';'')"
| "ex_abi (AbiString, JStr s) = Some (s @ '';'')"
| "ex_abi (t, v) = None"

definition ex_abiEncode :: "(abi_type \<times> json) list \<Rightarrow> string + string" where
  "ex_abiEncode vs =
     (if None \<in> set (map ex_abi vs) then Inl ''invalid value''
      else Inr (concat (map (\<lambda>v. case ex_abi v of None \<Rightarrow> [] | Some s \<Rightarrow> s) vs)))"

definition ex_sign :: "string \<Rightarrow> string \<Rightarrow> string" where
  "ex_sign address msg = address @ ''|'' @ msg"

definition ex_verifyMessage :: "string \<Rightarrow> json \<Rightarrow> string + string" where
  "ex_verifyMessage msg v =
     (case v of
        JStr sg \<Rightarrow>
          if CHR ''|'' \<notin> set sg then Inl ''invalid signature''
          else if drop 1 (dropWhile (\<lambda>x. x \<noteq> CHR ''|'') sg) = msg
          then Inr (takeWhile (\<lambda>x. x \<noteq> CHR ''|'') sg)
          else Inr ''0x00000000000000000000000000000000000000ff''
      | _ \<Rightarrow> Inl ''invalid signature'')"

datatype ex_rx = RxChar char | RxAny | RxSegment

fun ex_rx_parse :: "string \<Rightarrow> ex_rx list" where
  "ex_rx_parse [] = []"
| "ex_rx_parse (c # cs) =
     (if c = CHR ''.'' \<and> take 1 cs = ''*'' then RxAny # ex_rx_parse (drop 1 cs)
      else if c = CHR ''('' \<and> take 6 cs = ''[^/]+)'' then RxSegment # ex_rx_parse (drop 6 cs)
      else RxChar c # ex_rx_parse cs)"

fun ex_rx_match :: "ex_rx list \<Rightarrow> string \<Rightarrow> bool" where
  "ex_rx_match [] s = (s = [])"
| "ex_rx_match (RxChar c # r) s =
     (case s of [] \<Rightarrow> False | x # xs \<Rightarrow> x = c \<and> ex_rx_match r xs)"
| "ex_rx_match (RxAny # r) s =
     (ex_rx_match r s \<or> (case s of [] \<Rightarrow> False | x # xs \<Rightarrow> ex_rx_match (RxAny # r) xs))"
| "ex_rx_match (RxSegment # r) s =
     (case s of [] \<Rightarrow> False
      | x # xs \<Rightarrow> x \<noteq> CHR ''/'' \<and> (ex_rx_match r xs \<or> ex_rx_match (RxSegment # r) xs))"

definition ex_regexTest :: "string \<Rightarrow> string \<Rightarrow> string + bool" where
  "ex_regexTest re s =
     (if take 1 re = ''^'' \<and> length re \<ge> 2 \<and> last re = CHR ''$''
         \<and> RxChar (CHR ''('') \<notin> set (ex_rx_parse (butlast (tl re)))
      then Inr (ex_rx_match (ex_rx_parse (butlast (tl re))) s)
      else Inl ''Invalid regular expression'')"

definition ex_lib :: "(string \<times> json) list \<Rightarrow> library" where
  "ex_lib table =
     \<lparr>parseEther = ex_parseEther,
      abiEncode = ex_abiEncode,
      keccak256 = (\<lambda>s. s),
      getBytes = (\<lambda>s. s),
      verifyMessage = ex_verifyMessage,
      jsonParse = (\<lambda>s. case map_of table s of
                          Some v \<Rightarrow> Inr v | None \<Rightarrow> Inl ''Unexpected token''),
      jsonRequirements = (\<lambda>rs. concat (map PaymentRequirements.resource rs)),
      jsonSettlement = (\<lambda>r. interpolate (receipt r)),
      base64Encode = (\<lambda>s. ''b64:'' @ s),
      base64Decode = (\<lambda>s. s),
      numberToString = (\<lambda>n. ''0''),
      arrayToString = (\<lambda>xs. Inr ''?''),
      stringToNumber = (\<lambda>s. None),
      toLowerCase = asciiLower,
      toUpperCase = asciiUpper,
      regexTest = ex_regexTest\<rparr>"

definition ex_components :: ZKProofComponents where
  "ex_components =
     \<lparr>amountHash = ''0xa1'', senderHash = ''0x51'', receiverHash = ''0xe1'',
      ZKProofComponents.timestamp = 1700000000,
      ZKProofComponents.signature = ex_sign ''0xAbC1'' ''0xc1;0x01;0xa1;0x51;0xe1;+;''\<rparr>"

definition ex_proof :: ZKPaymentProof where
  "ex_proof =
     \<lparr>ZKPaymentProof.commitment = ''0xc1'', ZKPaymentProof.nullifier = ''0x01'',
      proof' = ex_components,
      publicInputs = \<lparr>minAmount = ''0.001'', ZKPublicInputs.chainId = 31337,
                      ZKPublicInputs.contractAddress = ''0xE5c0'',
                      ZKPublicInputs.bountyId = None\<rparr>\<rparr>"

text \<open>
  A proof whose commitment, nullifier and amount hash are made up, signed by an
  unrelated key over its own binding message.
\<close>

definition ex_forged :: ZKPaymentProof where
  "ex_forged =
     ex_proof\<lparr>ZKPaymentProof.commitment := ''0xff'', ZKPaymentProof.nullifier := ''0x02'',
       proof' := ex_components\<lparr>amountHash := ''0x00'',
         ZKProofComponents.signature := ex_sign ''0xBad1'' ''0xff;0x02;0x00;0x51;0xe1;+;''\<rparr>\<rparr>"

definition ex_data :: PaymentData where
  "ex_data =
     \<lparr>sender = ''0xAbC1'', PaymentData.signature = None, zkProof = None,
      amount = ''0.001'', nonce = ''n1'', PaymentData.timestamp = 1700000000\<rparr>"

definition ex_zk_payload :: PaymentPayload where
  "ex_zk_payload =
     \<lparr>x402Version = 1, PaymentPayload.scheme = ''zk-exact'',
      PaymentPayload.network = ''eip155:31337'',
      PaymentPayload.payload = ex_data\<lparr>zkProof := Some ex_proof\<rparr>\<rparr>"

definition ex_exact_payload :: PaymentPayload where
  "ex_exact_payload =
     \<lparr>x402Version = 1, PaymentPayload.scheme = ''exact'',
      PaymentPayload.network = ''eip155:31337'',
      PaymentPayload.payload = ex_data\<lparr>PaymentData.signature := Some (ex_sign ''0xABC1'' ''0xAbC1;+;n1;+;'')\<rparr>\<rparr>"

text \<open>
  A value that is no \<open>PaymentPayload\<close>: its \<open>payload\<close> has neither \<open>timestamp\<close> nor
  \<open>signature\<close>.
\<close>

definition ex_untimed :: json where
  "ex_untimed =
     JObj [(''x402Version'', JNum 1), (''scheme'', JStr ''exact''),
           (''network'', JStr ''eip155:31337''),
           (''payload'', JObj [(''sender'', JStr ''0xAbC1''), (''amount'', JStr ''0.001''),
                               (''nonce'', JStr ''n1'')])]"

text \<open>
  A value that is no \<open>PaymentPayload\<close>: its \<open>nonce\<close> is the object \<open>{"toString": 1}\<close>,
  and it has no \<open>signature\<close>.
\<close>

definition ex_unprintable :: json where
  "ex_unprintable =
     JObj [(''x402Version'', JNum 1), (''scheme'', JStr ''exact''),
           (''network'', JStr ''eip155:31337''),
           (''payload'', JObj [(''sender'', JStr ''0xAbC1''), (''amount'', JStr ''0.001''),
                               (''nonce'', JObj [(''toString'', JNum 1)]),
                               (''timestamp'', JNum 1700000000)])]"

text \<open>The values the stand-in decoder knows, by header value.\<close>

definition ex_table :: "(string \<times> json) list" where
  "ex_table =
     [(''zk'', payloadJson ex_zk_payload),
      (''zk-noproof'', payloadJson (ex_zk_payload\<lparr>PaymentPayload.payload := ex_data\<rparr>)),
      (''zk-cheap'',
         payloadJson (ex_zk_payload\<lparr>PaymentPayload.payload :=
                        ex_data\<lparr>zkProof := Some ex_proof, amount := ''0.0005''\<rparr>\<rparr>)),
      (''zk-v2'', payloadJson (ex_zk_payload\<lparr>x402Version := 2\<rparr>)),
      (''exact'', payloadJson ex_exact_payload),
      (''exact-nosig'', payloadJson (ex_exact_payload\<lparr>PaymentPayload.payload := ex_data\<rparr>)),
      (''exact-forged'',
         payloadJson (ex_exact_payload\<lparr>PaymentPayload.payload :=
           ex_data\<lparr>PaymentData.signature := Some (ex_sign ''0xBad1'' ''0xAbC1;+;n1;+;'')\<rparr>\<rparr>)),
      (''exact-spent'',
         payloadJson (ex_exact_payload\<lparr>PaymentPayload.payload :=
                        ex_data\<lparr>zkProof := Some ex_proof\<rparr>\<rparr>)),
      (''untimed'', ex_untimed),
      (''unprintable'', ex_unprintable),
      (''null'', JNull)]"

definition ex_request :: "string \<Rightarrow> Request" where
  "ex_request h =
     \<lparr>url = ''http://localhost/api/ai/agent'',
      Request.headers = (if h = [] then [] else [(''payment-signature'', h)])\<rparr>"

definition ex_config :: "bool \<Rightarrow> PaymentConfig" where
  "ex_config zk =
     \<lparr>price = ''0.001'', RoutePaymentConfig.description = ''Run the AI agent'',
      useZkProof = (if zk then Some True else None), RoutePaymentConfig.bountyId = None,
      PaymentConfig.payTo = ''0xA6e7'', PaymentConfig.contractAddress = Some ''0xe5c0'',
      PaymentConfig.chainId = 31337, PaymentConfig.network = ''eip155:31337''\<rparr>"

definition ex_requirements :: "bool \<Rightarrow> PaymentRequirements" where
  "ex_requirements zk = requirementsOf (ex_config zk) (ex_request [])"

text \<open>A handler that answers 200 and counts its calls, and the response it gives.\<close>

definition ex_handler :: "nat Handler" where
  "ex_handler request w =
     (Inr \<lparr>status = 200, body = HandlerBody ''done'', Response.headers = []\<rparr>, Suc w)"

definition ex_response :: Response where
  "ex_response = \<lparr>status = 200, body = HandlerBody ''done'', Response.headers = []\<rparr>"

text \<open>A signer whose transfer is refused.\<close>

definition ex_failing_signer :: Signer where
  "ex_failing_signer to v = Inl ''insufficient funds''"

definition ex_config_of :: "string \<Rightarrow> RoutePaymentConfig" where
  "ex_config_of what =
     \<lparr>price = ''0.001'', RoutePaymentConfig.description = what,
      useZkProof = None, RoutePaymentConfig.bountyId = None\<rparr>"

text \<open>
  The table with the keys \<open>POST /api/ai/agent\<close>, \<open>GET /api/posts/[id]\<close> and
  \<open>* /api/files/*\<close>.
\<close>

definition ex_route_list :: "Route list" where
  "ex_route_list =
     [(''POST'', map Lit ''/api/ai/agent'', ex_config_of ''agent''),
      (''GET'', map Lit ''/api/posts/'' @ [Param ''id''], ex_config_of ''post''),
      (''*'', map Lit ''/api/files/'' @ [Star], ex_config_of ''files'')]"

definition ex_routes :: RoutesConfig where
  "ex_routes = map routeEntry ex_route_list"

section \<open>Payloads of the declared types, read as JSON values\<close>

lemma property_readable:
  "property v k = Inr x \<Longrightarrow> property v k' = Inr (field v k')"
  by (cases v) (simp_all add: property_def field_def)

lemma property_JObj: "property (JObj kvs) k = Inr (field (JObj kvs) k)"
  by (simp add: property_def field_def)

lemma field_JObj:
  "field (JObj kvs) k = (case map_of kvs k of None \<Rightarrow> JUndefined | Some x \<Rightarrow> x)"
  by (simp add: property_def field_def)

lemma property_payloadJson: "property (payloadJson p) k = Inr (field (payloadJson p) k)"
  by (simp add: payloadJson_def property_JObj)

lemma property_dataJson: "property (dataJson d) k = Inr (field (dataJson d) k)"
  by (simp add: dataJson_def property_JObj)

lemma property_proofJson: "property (proofJson zp) k = Inr (field (proofJson zp) k)"
  by (simp add: proofJson_def property_JObj)

lemma property_componentsJson: "property (componentsJson c) k = Inr (field (componentsJson c) k)"
  by (simp add: componentsJson_def property_JObj)

lemma property_publicInputsJson:
  "property (publicInputsJson i) k = Inr (field (publicInputsJson i) k)"
  by (simp add: publicInputsJson_def property_JObj)

lemma field_payloadJson:
  "field (payloadJson p) ''x402Version'' = JNum (x402Version p)"
  "field (payloadJson p) ''scheme'' = JStr (PaymentPayload.scheme p)"
  "field (payloadJson p) ''payload'' = dataJson (PaymentPayload.payload p)"
  by (simp_all add: payloadJson_def field_JObj)

lemma field_dataJson:
  "field (dataJson d) ''sender'' = JStr (sender d)"
  "field (dataJson d) ''amount'' = JStr (amount d)"
  "field (dataJson d) ''nonce'' = JStr (nonce d)"
  "field (dataJson d) ''timestamp'' = JNum (PaymentData.timestamp d)"
  "field (dataJson d) ''signature''
     = (case PaymentData.signature d of None \<Rightarrow> JUndefined | Some s \<Rightarrow> JStr s)"
  "field (dataJson d) ''zkProof''
     = (case zkProof d of None \<Rightarrow> JUndefined | Some zp \<Rightarrow> proofJson zp)"
  by (cases "PaymentData.signature d"; cases "zkProof d";
      simp add: dataJson_def field_JObj optional_def)+

lemma field_proofJson:
  "field (proofJson zp) ''commitment'' = JStr (ZKPaymentProof.commitment zp)"
  "field (proofJson zp) ''nullifier'' = JStr (ZKPaymentProof.nullifier zp)"
  "field (proofJson zp) ''proof'' = componentsJson (proof' zp)"
  "field (proofJson zp) ''publicInputs'' = publicInputsJson (publicInputs zp)"
  by (simp_all add: proofJson_def field_JObj)

lemma field_componentsJson:
  "field (componentsJson c) ''amountHash'' = JStr (amountHash c)"
  "field (componentsJson c) ''senderHash'' = JStr (senderHash c)"
  "field (componentsJson c) ''receiverHash'' = JStr (receiverHash c)"
  "field (componentsJson c) ''timestamp'' = JNum (ZKProofComponents.timestamp c)"
  "field (componentsJson c) ''signature'' = JStr (ZKProofComponents.signature c)"
  by (simp_all add: componentsJson_def field_JObj)

lemma field_publicInputsJson:
  "field (publicInputsJson i) ''chainId'' = JNum (ZKPublicInputs.chainId i)"
  "field (publicInputsJson i) ''contractAddress'' = JStr (ZKPublicInputs.contractAddress i)"
  by (simp_all add: publicInputsJson_def field_JObj)

lemma truthyJ_embedded:
  "truthyJ (proofJson zp)" "truthyJ (JStr s) = (s \<noteq> [])" "\<not> truthyJ JUndefined"
  by (simp_all add: truthyJ_def proofJson_def)

lemma numbers_embedded:
  "ageExceeds lib now (JNum t) bound = Inr (now - t > bound)"
  "exceeds lib (JNum t) bound = Inr (t > bound)"
  by (simp_all add: ageExceeds_def exceeds_def toNumber_def)

lemma lowerCased_JStr: "lowerCased lib (JStr s) expr = Inr (toLowerCase lib s)"
  by (simp add: lowerCased_def)

lemma store_JStr:
  "isNullifierUsed (JStr n) used = (JStr n \<in> used)"
  "markNullifierUsed (JStr n) used = insert (JStr n) used"
  by (simp_all add: isNullifierUsed_def markNullifierUsed_def isObject_def)

lemmas embedded = property_payloadJson property_dataJson property_proofJson
  property_componentsJson property_publicInputsJson field_payloadJson field_dataJson
  field_proofJson field_componentsJson field_publicInputsJson truthyJ_embedded
  numbers_embedded lowerCased_JStr store_JStr

text \<open>verifyPaymentProof on a proof of the declared type\<close>

lemma verifyPaymentProof_typed:
  "verifyPaymentProof lib nowMs (proofJson p) c a =
     (case firstFailure (proofChecks lib (nowMs div 1000) p c a) of
        Some e \<Rightarrow> zkFail e
      | None \<Rightarrow>
          (case abiEncode lib
             [(AbiBytes32, JStr (ZKPaymentProof.commitment p)),
              (AbiBytes32, JStr (ZKPaymentProof.nullifier p)),
              (AbiBytes32, JStr (amountHash (proof' p))),
              (AbiBytes32, JStr (senderHash (proof' p))),
              (AbiBytes32, JStr (receiverHash (proof' p))),
              (AbiUint256, JNum (ZKProofComponents.timestamp (proof' p)))] of
             Inl e \<Rightarrow> zkFail (''Proof verification failed: '' @ e)
           | Inr enc \<Rightarrow>
               (case verifyMessage lib (getBytes lib (keccak256 lib enc))
                       (JStr (ZKProofComponents.signature (proof' p))) of
                  Inl e \<Rightarrow> zkFail (''Proof verification failed: '' @ e)
                | Inr signer \<Rightarrow>
                    if signer = [] \<or> signer = ZeroAddress
                    then zkFail ''Invalid proof signature''
                    else \<lparr>ZKVerificationResult.valid = True, error = None,
                          commitment = Some (JStr (ZKPaymentProof.commitment p)),
                          nullifier = Some (JStr (ZKPaymentProof.nullifier p))\<rparr>)))"
  by (simp add: verifyPaymentProof_def verifyPaymentProof_try_def proofMessage_def embedded
        firstFailure_def proofChecks_def Let_def split: sum.splits)

lemma verify_presented:
  "presents request h \<Longrightarrow>
   verifyPaymentFromRequest lib nowMs nowMsZk request requirements c used =
     (case verifyPaymentFromRequest_try lib nowMs nowMsZk h requirements c used of
        Inl msg \<Rightarrow> vFail (''Payment verification failed: '' @ msg)
      | Inr r \<Rightarrow> r)"
  by (simp add: presents_def verifyPaymentFromRequest_def)

lemma verify_early:
  assumes "presents request h" and "decodePaymentPayload lib h = Inr (payloadJson p)"
    and "firstFailure (take 2 (requestChecks p requirements requiredAmount paidAmount now)) = Some e"
  shows "verifyPaymentFromRequest lib nowMs nowMsZk request requirements c used = vFail e"
  using assms(2,3)
  by (auto simp: verify_presented [OF assms(1)] verifyPaymentFromRequest_try_def firstFailure_def
        requestChecks_def embedded split: if_splits)

lemma verify_decoded:
  assumes "presents request h" and "decodePaymentPayload lib h = Inr (payloadJson p)"
    and "parseEther lib (JStr (maxAmountRequired requirements)) = Inr requiredAmount"
    and "parseEther lib (JStr (amount (PaymentPayload.payload p))) = Inr paidAmount"
  shows "verifyPaymentFromRequest lib nowMs nowMsZk request requirements c used =
           (case firstFailure (requestChecks p requirements requiredAmount paidAmount
                                 (nowMs div 1000)) of
              Some e \<Rightarrow> vFail e
            | None \<Rightarrow> schemeVerification lib nowMsZk (payloadJson p) requirements c used
                        paidAmount)"
  using assms(2-)
  by (auto simp: verify_presented [OF assms(1)] verifyPaymentFromRequest_try_def firstFailure_def
        requestChecks_def schemeVerification_def embedded Let_def
        split: sum.splits option.splits)

lemma zkStep_typed:
  "zkStep lib nowMsZk (payloadJson p) requirements c used =
     (if PaymentPayload.scheme p = ''zk-exact''
      then (case zkProof (PaymentPayload.payload p) of
              None \<Rightarrow> None
            | Some zp \<Rightarrow> map_option vFail (proofVerdict lib nowMsZk zp requirements c used))
      else None)"
  by (simp add: zkStep_def proofVerdict_def embedded Let_def split: option.splits)

lemma exactStep_typed:
  "exactStep lib (payloadJson p) paidAmount =
     (if PaymentPayload.scheme p = ''exact''
         \<and> truthy (PaymentData.signature (PaymentPayload.payload p))
      then
        (case abiEncode lib
                [(AbiAddress, JStr (sender (PaymentPayload.payload p))),
                 (AbiUint256, JNum paidAmount),
                 (AbiString, JStr (nonce (PaymentPayload.payload p))),
                 (AbiUint256, JNum (PaymentData.timestamp (PaymentPayload.payload p)))] of
           Inl e \<Rightarrow> Inl e
         | Inr enc \<Rightarrow>
             (case verifyMessage lib (getBytes lib (keccak256 lib enc))
                     (case PaymentData.signature (PaymentPayload.payload p) of
                        None \<Rightarrow> JUndefined | Some s \<Rightarrow> JStr s) of
                Inl e \<Rightarrow> Inl e
              | Inr recoveredAddress \<Rightarrow>
                  if toLowerCase lib recoveredAddress
                       \<noteq> toLowerCase lib (sender (PaymentPayload.payload p))
                  then Inr (Some (vFail ''Invalid payment signature''))
                  else Inr None))
      else Inr None)"
  by (auto simp: exactStep_def embedded truthy_def Let_def split: option.splits sum.splits)

lemma exact_with_signature:
  assumes "PaymentPayload.scheme p = ''exact''"
    and "truthy (PaymentData.signature (PaymentPayload.payload p))"
  shows "VerifyResult.valid
           (schemeVerification lib nowMsZk (payloadJson p) requirements c used paidAmount)
           = signerIsSender lib p paidAmount"
  using assms
  by (auto simp: schemeVerification_def zkStep_typed exactStep_typed signerIsSender_def
        truthy_def vFail_def split: option.splits sum.splits)

section \<open>The proof engine: order of the checks\<close>

lemmas ex_defs = ex_lib_def ex_proof_def ex_components_def ex_verifyMessage_def ex_sign_def
  ex_parseEther_def ex_abiEncode_def ex_data_def ex_zk_payload_def ex_exact_payload_def
  ex_table_def ex_request_def ex_config_def ex_requirements_def requirementsOf_def

lemmas string_defs = asciiLower_def lower_char_def truthy_def or_else_def or_default_def
  interpolate_def headers_get_def

lemmas check_defs = firstFailure_def requestChecks_def proofChecks_def

lemma verifyPaymentProof_first_failure:
  "firstFailure (proofChecks lib (nowMs div 1000) p c a) = Some e \<Longrightarrow>
     verifyPaymentProof lib nowMs (proofJson p) c a = zkFail e"
  by (simp add: verifyPaymentProof_typed)

lemma verifyPaymentProof_signature_stage:
  "firstFailure (proofChecks lib (nowMs div 1000) p c a) = None \<Longrightarrow>
     ZKVerificationResult.valid (verifyPaymentProof lib nowMs (proofJson p) c a)
       = signerRecovered lib p"
  by (simp add: verifyPaymentProof_typed signerRecovered_def zkFail_def split: sum.splits)

text \<open>
  Claim C2. On a proof of the declared type, \<open>verifyPaymentProof\<close> checks, in this
  order, the chain id, the contract address (both sides through \<open>toLowerCase\<close>), that
  the proof is at most 3600 seconds old, and that its timestamp is at most 60 seconds
  ahead, and returns the error of the first check that fails. When all four hold, the
  values (commitment, nullifier, amountHash, senderHash, receiverHash, timestamp) are
  ABI-encoded as five \<open>bytes32\<close> and one \<open>uint256\<close>, the encoding is hashed with
  \<open>keccak256\<close>, and the signer is recovered from the proof's signature over the bytes
  of the hash: the result is valid exactly when this succeeds with an identity that is
  neither empty nor the zero address. An exception of the encoding or of the recovery
  gives \<open>Proof verification failed: ...\<close>, an empty or zero identity gives
  \<open>Invalid proof signature\<close>. With matching chain id and contract address, a timestamp
  of \<open>now - 3601\<close> gives \<open>Proof expired\<close>, a timestamp of \<open>now - 3599\<close> passes the
  four checks, and a timestamp of \<open>now + 61\<close> gives \<open>Proof timestamp in the future\<close>.
\<close>

theorem verifyPaymentProof_check_order:
  "(firstFailure (proofChecks lib (nowMs div 1000) p c a) = Some e
      \<longrightarrow> verifyPaymentProof lib nowMs (proofJson p) c a = zkFail e)
   \<and> (firstFailure (proofChecks lib (nowMs div 1000) p c a) = None
      \<longrightarrow> ZKVerificationResult.valid (verifyPaymentProof lib nowMs (proofJson p) c a)
            = signerRecovered lib p
        \<and> verifyPaymentProof lib nowMs (proofJson p) c a =
            (case abiEncode lib
                    [(AbiBytes32, JStr (ZKPaymentProof.commitment p)),
                     (AbiBytes32, JStr (ZKPaymentProof.nullifier p)),
                     (AbiBytes32, JStr (amountHash (proof' p))),
                     (AbiBytes32, JStr (senderHash (proof' p))),
                     (AbiBytes32, JStr (receiverHash (proof' p))),
                     (AbiUint256, JNum (ZKProofComponents.timestamp (proof' p)))] of
               Inl msg \<Rightarrow> zkFail (''Proof verification failed: '' @ msg)
             | Inr enc \<Rightarrow>
                 (case verifyMessage lib (getBytes lib (keccak256 lib enc))
                         (JStr (ZKProofComponents.signature (proof' p))) of
                    Inl msg \<Rightarrow> zkFail (''Proof verification failed: '' @ msg)
                  | Inr signer \<Rightarrow>
                      if signer = [] \<or> signer = ZeroAddress
                      then zkFail ''Invalid proof signature''
                      else \<lparr>ZKVerificationResult.valid = True, error = None,
                            commitment = Some (JStr (ZKPaymentProof.commitment p)),
                            nullifier = Some (JStr (ZKPaymentProof.nullifier p))\<rparr>)))
   \<and> (ZKPublicInputs.chainId (publicInputs p) = c
        \<and> toLowerCase lib (ZKPublicInputs.contractAddress (publicInputs p)) = toLowerCase lib a
      \<longrightarrow> verifyPaymentProof lib nowMs (proofJson (withTimestamp p (nowMs div 1000 - 3601))) c a
            = zkFail ''Proof expired''
        \<and> firstFailure (proofChecks lib (nowMs div 1000)
                          (withTimestamp p (nowMs div 1000 - 3599)) c a) = None
        \<and> verifyPaymentProof lib nowMs (proofJson (withTimestamp p (nowMs div 1000 + 61))) c a
            = zkFail ''Proof timestamp in the future'')"
proof (intro conjI impI)
  assume "firstFailure (proofChecks lib (nowMs div 1000) p c a) = Some e"
  then show "verifyPaymentProof lib nowMs (proofJson p) c a = zkFail e"
    by (rule verifyPaymentProof_first_failure)
next
  assume "firstFailure (proofChecks lib (nowMs div 1000) p c a) = None"
  then show "ZKVerificationResult.valid (verifyPaymentProof lib nowMs (proofJson p) c a)
               = signerRecovered lib p"
    by (rule verifyPaymentProof_signature_stage)
next
  assume "firstFailure (proofChecks lib (nowMs div 1000) p c a) = None"
  then show "verifyPaymentProof lib nowMs (proofJson p) c a =
            (case abiEncode lib
                    [(AbiBytes32, JStr (ZKPaymentProof.commitment p)),
                     (AbiBytes32, JStr (ZKPaymentProof.nullifier p)),
                     (AbiBytes32, JStr (amountHash (proof' p))),
                     (AbiBytes32, JStr (senderHash (proof' p))),
                     (AbiBytes32, JStr (receiverHash (proof' p))),
                     (AbiUint256, JNum (ZKProofComponents.timestamp (proof' p)))] of
               Inl msg \<Rightarrow> zkFail (''Proof verification failed: '' @ msg)
             | Inr enc \<Rightarrow>
                 (case verifyMessage lib (getBytes lib (keccak256 lib enc))
                         (JStr (ZKProofComponents.signature (proof' p))) of
                    Inl msg \<Rightarrow> zkFail (''Proof verification failed: '' @ msg)
                  | Inr signer \<Rightarrow>
                      if signer = [] \<or> signer = ZeroAddress
                      then zkFail ''Invalid proof signature''
                      else \<lparr>ZKVerificationResult.valid = True, error = None,
                            commitment = Some (JStr (ZKPaymentProof.commitment p)),
                            nullifier = Some (JStr (ZKPaymentProof.nullifier p))\<rparr>))"
    by (simp add: verifyPaymentProof_typed)
next
  assume ok: "ZKPublicInputs.chainId (publicInputs p) = c
        \<and> toLowerCase lib (ZKPublicInputs.contractAddress (publicInputs p)) = toLowerCase lib a"
  have "firstFailure (proofChecks lib (nowMs div 1000) (withTimestamp p (nowMs div 1000 - 3601)) c a)
          = Some ''Proof expired''"
    using ok by (simp add: firstFailure_def proofChecks_def withTimestamp_def)
  then show "verifyPaymentProof lib nowMs (proofJson (withTimestamp p (nowMs div 1000 - 3601))) c a
            = zkFail ''Proof expired''"
    by (rule verifyPaymentProof_first_failure)
  show "firstFailure (proofChecks lib (nowMs div 1000) (withTimestamp p (nowMs div 1000 - 3599)) c a)
            = None"
    using ok by (simp add: firstFailure_def proofChecks_def withTimestamp_def)
  have "firstFailure (proofChecks lib (nowMs div 1000) (withTimestamp p (nowMs div 1000 + 61)) c a)
          = Some ''Proof timestamp in the future''"
    using ok by (simp add: firstFailure_def proofChecks_def withTimestamp_def)
  then show "verifyPaymentProof lib nowMs (proofJson (withTimestamp p (nowMs div 1000 + 61))) c a
            = zkFail ''Proof timestamp in the future''"
    by (rule verifyPaymentProof_first_failure)
qed

text \<open>
  The example proof, checked 3601 seconds and 10 seconds after it was made, and with
  its timestamp moved to the two boundaries.
\<close>

theorem verifyPaymentProof_check_order_witness:
  "firstFailure (proofChecks (ex_lib []) (1700003601999 div 1000) ex_proof 31337 ''0xe5C0'')
      = Some ''Proof expired''
   \<and> verifyPaymentProof (ex_lib []) 1700003601999 (proofJson ex_proof) 31337 ''0xe5C0''
      = zkFail ''Proof expired''
   \<and> firstFailure (proofChecks (ex_lib []) (1700000010000 div 1000) ex_proof 31337 ''0xe5C0'')
      = None
   \<and> signerRecovered (ex_lib []) ex_proof
   \<and> verifyPaymentProof (ex_lib []) 1700000010000 (proofJson ex_proof) 31337 ''0xe5C0''
      = \<lparr>ZKVerificationResult.valid = True, error = None,
          commitment = Some (JStr ''0xc1''), nullifier = Some (JStr ''0x01'')\<rparr>
   \<and> verifyPaymentProof (ex_lib []) 1700000010000
        (proofJson (withTimestamp ex_proof 1699996409)) 31337 ''0xe5C0'' = zkFail ''Proof expired''
   \<and> verifyPaymentProof (ex_lib []) 1700000010000
        (proofJson (withTimestamp ex_proof 1700000071)) 31337 ''0xe5C0''
      = zkFail ''Proof timestamp in the future''"
proof -
  have a: "firstFailure (proofChecks (ex_lib []) (1700003601999 div 1000) ex_proof 31337 ''0xe5C0'')
             = Some ''Proof expired''"
    by (simp add: check_defs ex_defs string_defs)
  have b: "firstFailure (proofChecks (ex_lib []) (1700000010000 div 1000) ex_proof 31337 ''0xe5C0'')
             = None"
    by (simp add: check_defs ex_defs string_defs)
  have c: "ZKPublicInputs.chainId (publicInputs ex_proof) = 31337
        \<and> toLowerCase (ex_lib []) (ZKPublicInputs.contractAddress (publicInputs ex_proof))
            = toLowerCase (ex_lib []) ''0xe5C0''"
    by (simp add: ex_defs string_defs)
  have d: "signerRecovered (ex_lib []) ex_proof"
    by (simp add: signerRecovered_def ex_defs ZeroAddress_def)
  have e: "abiEncode (ex_lib [])
                    [(AbiBytes32, JStr (ZKPaymentProof.commitment ex_proof)),
                     (AbiBytes32, JStr (ZKPaymentProof.nullifier ex_proof)),
                     (AbiBytes32, JStr (amountHash (proof' ex_proof))),
                     (AbiBytes32, JStr (senderHash (proof' ex_proof))),
                     (AbiBytes32, JStr (receiverHash (proof' ex_proof))),
                     (AbiUint256, JNum (ZKProofComponents.timestamp (proof' ex_proof)))]
             = Inr ''0xc1;0x01;0xa1;0x51;0xe1;+;''"
    by (simp add: ex_defs)
  have f: "verifyMessage (ex_lib [])
             (getBytes (ex_lib []) (keccak256 (ex_lib []) ''0xc1;0x01;0xa1;0x51;0xe1;+;''))
             (JStr (ZKProofComponents.signature (proof' ex_proof))) = Inr ''0xAbC1''"
    by (simp add: ex_defs)
  have g: "ZKPaymentProof.commitment ex_proof = ''0xc1''"
    "ZKPaymentProof.nullifier ex_proof = ''0x01''"
    "''0xAbC1'' \<noteq> ZeroAddress"
    by (simp_all add: ex_defs ZeroAddress_def)
  note late = verifyPaymentProof_check_order
        [of "ex_lib []" 1700003601999 ex_proof 31337 "''0xe5C0''" "''Proof expired''"]
  note fresh = verifyPaymentProof_check_order
        [of "ex_lib []" 1700000010000 ex_proof 31337 "''0xe5C0''" "''Proof expired''"]
  have v: "verifyPaymentProof (ex_lib []) 1700000010000 (proofJson ex_proof) 31337 ''0xe5C0''
      = \<lparr>ZKVerificationResult.valid = True, error = None,
          commitment = Some (JStr (ZKPaymentProof.commitment ex_proof)),
          nullifier = Some (JStr (ZKPaymentProof.nullifier ex_proof))\<rparr>"
    using fresh b by (simp add: e f g(3))
  show ?thesis
    using a b c d late fresh v by (simp add: g)
qed

text \<open>
  Claim C10. \<open>verifyPaymentProof\<close> binds the signature to no identity and to no value:
  when the chain id and the contract address match and the timestamp is within the
  freshness window, any proof, whatever its commitment, nullifier and hashes, is valid as
  soon as signer recovery over the hash of its own six values succeeds with some
  non-empty, non-zero address. The recovered address is compared with nothing, and no
  hash is recomputed from known values.
\<close>

theorem verifyPaymentProof_accepts_any_signer:
  assumes "ZKPublicInputs.chainId (publicInputs p) = c"
    and "toLowerCase lib (ZKPublicInputs.contractAddress (publicInputs p)) = toLowerCase lib a"
    and "nowMs div 1000 - ZKProofComponents.timestamp (proof' p) \<le> 3600"
    and "ZKProofComponents.timestamp (proof' p) \<le> nowMs div 1000 + 60"
    and "abiEncode lib
           [(AbiBytes32, JStr (ZKPaymentProof.commitment p)),
            (AbiBytes32, JStr (ZKPaymentProof.nullifier p)),
            (AbiBytes32, JStr (amountHash (proof' p))),
            (AbiBytes32, JStr (senderHash (proof' p))),
            (AbiBytes32, JStr (receiverHash (proof' p))),
            (AbiUint256, JNum (ZKProofComponents.timestamp (proof' p)))] = Inr enc"
    and "verifyMessage lib (getBytes lib (keccak256 lib enc))
           (JStr (ZKProofComponents.signature (proof' p))) = Inr signer"
    and "signer \<noteq> []" and "signer \<noteq> ZeroAddress"
  shows "verifyPaymentProof lib nowMs (proofJson p) c a =
     \<lparr>ZKVerificationResult.valid = True, error = None,
       commitment = Some (JStr (ZKPaymentProof.commitment p)),
       nullifier = Some (JStr (ZKPaymentProof.nullifier p))\<rparr>"
  using assms by (simp add: verifyPaymentProof_typed firstFailure_def proofChecks_def)

text \<open>
  The made-up proof signed by the unrelated key \<open>0xBad1\<close> is valid.
\<close>

theorem verifyPaymentProof_accepts_any_signer_witness:
  "abiEncode (ex_lib [])
           [(AbiBytes32, JStr ''0xff''), (AbiBytes32, JStr ''0x02''), (AbiBytes32, JStr ''0x00''),
            (AbiBytes32, JStr ''0x51''), (AbiBytes32, JStr ''0xe1''),
            (AbiUint256, JNum 1700000000)] = Inr ''0xff;0x02;0x00;0x51;0xe1;+;''
   \<and> verifyMessage (ex_lib []) ''0xff;0x02;0x00;0x51;0xe1;+;''
         (JStr (ZKProofComponents.signature (proof' ex_forged))) = Inr ''0xBad1''
   \<and> verifyPaymentProof (ex_lib []) 1700000010000 (proofJson ex_forged) 31337 ''0xe5C0'' =
     \<lparr>ZKVerificationResult.valid = True, error = None,
       commitment = Some (JStr ''0xff''), nullifier = Some (JStr ''0x02'')\<rparr>"
proof -
  have 1: "ZKPublicInputs.chainId (publicInputs ex_forged) = 31337"
    by (simp add: ex_forged_def ex_defs)
  have 2: "toLowerCase (ex_lib []) (ZKPublicInputs.contractAddress (publicInputs ex_forged))
             = toLowerCase (ex_lib []) ''0xe5C0''"
    by (simp add: ex_forged_def ex_defs string_defs)
  have 3: "1700000010000 div 1000 - ZKProofComponents.timestamp (proof' ex_forged) \<le> 3600"
    by (simp add: ex_forged_def ex_defs)
  have 4: "ZKProofComponents.timestamp (proof' ex_forged) \<le> 1700000010000 div 1000 + 60"
    by (simp add: ex_forged_def ex_defs)
  have 5: "abiEncode (ex_lib [])
           [(AbiBytes32, JStr (ZKPaymentProof.commitment ex_forged)),
            (AbiBytes32, JStr (ZKPaymentProof.nullifier ex_forged)),
            (AbiBytes32, JStr (amountHash (proof' ex_forged))),
            (AbiBytes32, JStr (senderHash (proof' ex_forged))),
            (AbiBytes32, JStr (receiverHash (proof' ex_forged))),
            (AbiUint256, JNum (ZKProofComponents.timestamp (proof' ex_forged)))]
          = Inr ''0xff;0x02;0x00;0x51;0xe1;+;''"
    by (simp add: ex_forged_def ex_defs)
  have 6: "verifyMessage (ex_lib [])
             (getBytes (ex_lib []) (keccak256 (ex_lib []) ''0xff;0x02;0x00;0x51;0xe1;+;''))
             (JStr (ZKProofComponents.signature (proof' ex_forged))) = Inr ''0xBad1''"
    by (simp add: ex_forged_def ex_defs)
  have 7: "''0xBad1'' \<noteq> []" "''0xBad1'' \<noteq> ZeroAddress"
    by (simp_all add: ZeroAddress_def)
  have 8: "ZKPaymentProof.commitment ex_forged = ''0xff''"
    "ZKPaymentProof.nullifier ex_forged = ''0x02''"
    "amountHash (proof' ex_forged) = ''0x00''" "senderHash (proof' ex_forged) = ''0x51''"
    "receiverHash (proof' ex_forged) = ''0xe1''"
    "ZKProofComponents.timestamp (proof' ex_forged) = 1700000000"
    by (simp_all add: ex_forged_def ex_defs)
  have 9: "getBytes (ex_lib []) (keccak256 (ex_lib []) ''0xff;0x02;0x00;0x51;0xe1;+;'')
             = ''0xff;0x02;0x00;0x51;0xe1;+;''"
    by (simp add: ex_lib_def)
  show ?thesis
    using 5 6 verifyPaymentProof_accepts_any_signer [OF 1 2 3 4 5 6 7]
    by (simp add: 8 9)
qed

section \<open>Verification of a request\<close>

lemmas verify_defs = verifyPaymentFromRequest_def verifyPaymentFromRequest_try_def zkStep_def
  exactStep_def vFail_def decodePaymentPayload_def

text \<open>
  Claim C3. For a request that presents a payment header which decodes to a payload,
  \<open>verifyPaymentFromRequest\<close> rejects with the error of the first failing check among:
  version equal to 1, scheme equal to the requirement's, amount not below the required
  amount (both parsed to integers in base units by \<open>parseEther\<close>), and age at most 300
  seconds. The first two checks decide before any amount is parsed. Only when all four
  hold is the scheme-specific verification run, and its result is returned.
\<close>

theorem verifyPaymentFromRequest_check_order:
  assumes "presents request h" and "decodePaymentPayload lib h = Inr (payloadJson p)"
  shows "(firstFailure (take 2 (requestChecks p requirements requiredAmount paidAmount
                                  (nowMs div 1000))) = Some e
            \<longrightarrow> verifyPaymentFromRequest lib nowMs nowMsZk request requirements c used = vFail e)
       \<and> (parseEther lib (JStr (maxAmountRequired requirements)) = Inr requiredAmount
            \<and> parseEther lib (JStr (amount (PaymentPayload.payload p))) = Inr paidAmount
            \<longrightarrow> verifyPaymentFromRequest lib nowMs nowMsZk request requirements c used =
                 (case firstFailure (requestChecks p requirements requiredAmount paidAmount
                                       (nowMs div 1000)) of
                    Some e' \<Rightarrow> vFail e'
                  | None \<Rightarrow> schemeVerification lib nowMsZk (payloadJson p) requirements c used
                              paidAmount))"
  using verify_early [OF assms] verify_decoded [OF assms] by blast

text \<open>
  A payload of version 2, one of the other scheme, one paying half the price, one
  presented 301 seconds late, and one that passes the four checks.
\<close>

theorem verifyPaymentFromRequest_check_order_witness:
  "verifyPaymentFromRequest (ex_lib ex_table) 1700000010000 1700000010000
      (ex_request ''zk-v2'') (ex_requirements True) 31337 {} = vFail ''Unsupported x402 version''
   \<and> verifyPaymentFromRequest (ex_lib ex_table) 1700000010000 1700000010000
      (ex_request ''exact'') (ex_requirements True) 31337 {} = vFail ''Payment scheme mismatch''
   \<and> verifyPaymentFromRequest (ex_lib ex_table) 1700000010000 1700000010000
      (ex_request ''zk-cheap'') (ex_requirements True) 31337 {} = vFail ''Insufficient payment amount''
   \<and> verifyPaymentFromRequest (ex_lib ex_table) 1700000301000 1700000301000
      (ex_request ''zk'') (ex_requirements True) 31337 {} = vFail ''Payment expired''
   \<and> verifyPaymentFromRequest (ex_lib ex_table) 1700000010000 1700000010000
      (ex_request ''zk'') (ex_requirements True) 31337 {}
      = schemeVerification (ex_lib ex_table) 1700000010000 (payloadJson ex_zk_payload)
          (ex_requirements True) 31337 {} 1000000000000000"
proof -
  let ?lib = "ex_lib ex_table"
  let ?R = "ex_requirements True"
  have pres: "presents (ex_request ''zk-v2'') ''zk-v2''" "presents (ex_request ''exact'') ''exact''"
    "presents (ex_request ''zk-cheap'') ''zk-cheap''" "presents (ex_request ''zk'') ''zk''"
    by (simp_all add: presents_def ex_defs string_defs)
  have dec: "decodePaymentPayload ?lib ''zk-v2'' = Inr (payloadJson (ex_zk_payload\<lparr>x402Version := 2\<rparr>))"
    "decodePaymentPayload ?lib ''exact'' = Inr (payloadJson ex_exact_payload)"
    "decodePaymentPayload ?lib ''zk-cheap''
       = Inr (payloadJson (ex_zk_payload\<lparr>PaymentPayload.payload :=
                ex_data\<lparr>zkProof := Some ex_proof, amount := ''0.0005''\<rparr>\<rparr>))"
    "decodePaymentPayload ?lib ''zk'' = Inr (payloadJson ex_zk_payload)"
    by (simp_all add: decodePaymentPayload_def ex_lib_def ex_table_def)
  have req: "parseEther ?lib (JStr (maxAmountRequired ?R)) = Inr 1000000000000000"
    by (simp add: ex_defs)
  have paid: "parseEther ?lib (JStr (amount (PaymentPayload.payload ex_zk_payload)))
                = Inr 1000000000000000"
    "parseEther ?lib (JStr (amount (PaymentPayload.payload (ex_zk_payload\<lparr>PaymentPayload.payload :=
                ex_data\<lparr>zkProof := Some ex_proof, amount := ''0.0005''\<rparr>\<rparr>)))) = Inr 500000000000000"
    by (simp_all add: ex_defs)
  have f1: "firstFailure (take 2 (requestChecks (ex_zk_payload\<lparr>x402Version := 2\<rparr>) ?R 0 0
              (1700000010000 div 1000))) = Some ''Unsupported x402 version''"
    by (simp add: check_defs ex_defs)
  have f2: "firstFailure (take 2 (requestChecks ex_exact_payload ?R 0 0
              (1700000010000 div 1000))) = Some ''Payment scheme mismatch''"
    by (simp add: check_defs ex_defs)
  have f3: "firstFailure (requestChecks (ex_zk_payload\<lparr>PaymentPayload.payload :=
                ex_data\<lparr>zkProof := Some ex_proof, amount := ''0.0005''\<rparr>\<rparr>) ?R 1000000000000000
                500000000000000 (1700000010000 div 1000)) = Some ''Insufficient payment amount''"
    by (simp add: check_defs ex_defs)
  have f4: "firstFailure (requestChecks ex_zk_payload ?R 1000000000000000 1000000000000000
              (1700000301000 div 1000)) = Some ''Payment expired''"
    by (simp add: check_defs ex_defs)
  have f5: "firstFailure (requestChecks ex_zk_payload ?R 1000000000000000 1000000000000000
              (1700000010000 div 1000)) = None"
    by (simp add: check_defs ex_defs)
  show ?thesis
    using f1 f2 f3 f4 f5 req paid
      verifyPaymentFromRequest_check_order [OF pres(1) dec(1), where requirements = ?R and requiredAmount = 0 and paidAmount = 0
            and nowMs = 1700000010000 and e = "''Unsupported x402 version''"
            and nowMsZk = 1700000010000 and c = 31337 and used = "{}"]
      verifyPaymentFromRequest_check_order [OF pres(2) dec(2), where requirements = ?R and requiredAmount = 0 and paidAmount = 0
            and nowMs = 1700000010000 and e = "''Payment scheme mismatch''"
            and nowMsZk = 1700000010000 and c = 31337 and used = "{}"]
      verifyPaymentFromRequest_check_order [OF pres(3) dec(3), where requirements = ?R and requiredAmount = 1000000000000000
            and paidAmount = 500000000000000 and nowMs = 1700000010000
            and nowMsZk = 1700000010000 and c = 31337 and used = "{}"]
      verifyPaymentFromRequest_check_order [OF pres(4) dec(4), where requirements = ?R and requiredAmount = 1000000000000000
            and paidAmount = 1000000000000000 and nowMs = 1700000301000
            and nowMsZk = 1700000301000 and c = 31337 and used = "{}"]
      verifyPaymentFromRequest_check_order [OF pres(4) dec(4), where requirements = ?R and requiredAmount = 1000000000000000
            and paidAmount = 1000000000000000 and nowMs = 1700000010000
            and nowMsZk = 1700000010000 and c = 31337 and used = "{}"]
    by simp
qed

text \<open>
  Claim C4, as stated, fails: a payload of scheme \<open>exact\<close> with no signature passes the
  four checks and is valid, although no signer is recovered.
\<close>

theorem exact_unsigned_counterexample:
  "decodePaymentPayload (ex_lib ex_table) ''exact-nosig''
     = Inr (payloadJson (ex_exact_payload\<lparr>PaymentPayload.payload := ex_data\<rparr>))
   \<and> firstFailure (requestChecks (ex_exact_payload\<lparr>PaymentPayload.payload := ex_data\<rparr>)
         (ex_requirements False) 1000000000000000 1000000000000000 (1700000010000 div 1000)) = None
   \<and> VerifyResult.valid (verifyPaymentFromRequest (ex_lib ex_table) 1700000010000 1700000010000
         (ex_request ''exact-nosig'') (ex_requirements False) 31337 {})
   \<and> \<not> signerIsSender (ex_lib ex_table) (ex_exact_payload\<lparr>PaymentPayload.payload := ex_data\<rparr>)
         1000000000000000"
  by (simp add: ex_defs string_defs verify_defs check_defs signerIsSender_def embedded)

text \<open>
  Claim C4, amended. For a payload of scheme \<open>exact\<close> that carries a non-empty signature
  and passes the version, scheme, amount and expiry checks, \<open>verifyPaymentFromRequest\<close>
  returns valid exactly when the signer recovered from the signature over the recomputed
  hash of (sender, amount in base units, nonce, timestamp) is the sender, letter case
  aside.
\<close>

theorem exact_signature_binds_sender:
  assumes "presents request h" and "decodePaymentPayload lib h = Inr (payloadJson p)"
    and "PaymentPayload.scheme p = ''exact''"
    and "parseEther lib (JStr (maxAmountRequired requirements)) = Inr requiredAmount"
    and "parseEther lib (JStr (amount (PaymentPayload.payload p))) = Inr paidAmount"
    and "firstFailure (requestChecks p requirements requiredAmount paidAmount (nowMs div 1000))
           = None"
    and "truthy (PaymentData.signature (PaymentPayload.payload p))"
  shows "VerifyResult.valid (verifyPaymentFromRequest lib nowMs nowMsZk request requirements c used)
           = signerIsSender lib p paidAmount"
  using verify_decoded [OF assms(1,2,4,5)] exact_with_signature [OF assms(3,7)] assms(6)
  by simp

text \<open>
  A payload signed by its sender (in another letter case) is valid; the same payload
  signed by another key is not.
\<close>

theorem exact_signature_binds_sender_witness:
  "signerIsSender (ex_lib ex_table) ex_exact_payload 1000000000000000
   \<and> VerifyResult.valid (verifyPaymentFromRequest (ex_lib ex_table) 1700000010000 1700000010000
         (ex_request ''exact'') (ex_requirements False) 31337 {})
   \<and> \<not> VerifyResult.valid (verifyPaymentFromRequest (ex_lib ex_table) 1700000010000 1700000010000
         (ex_request ''exact-forged'') (ex_requirements False) 31337 {})"
proof -
  let ?lib = "ex_lib ex_table"
  let ?R = "ex_requirements False"
  let ?F = "ex_exact_payload\<lparr>PaymentPayload.payload :=
           ex_data\<lparr>PaymentData.signature := Some (ex_sign ''0xBad1'' ''0xAbC1;+;n1;+;'')\<rparr>\<rparr>"
  have pres: "presents (ex_request ''exact'') ''exact''"
     "presents (ex_request ''exact-forged'') ''exact-forged''"
    by (simp_all add: presents_def ex_defs string_defs)
  have dec: "decodePaymentPayload ?lib ''exact'' = Inr (payloadJson ex_exact_payload)"
    "decodePaymentPayload ?lib ''exact-forged'' = Inr (payloadJson ?F)"
    by (simp_all add: decodePaymentPayload_def ex_lib_def ex_table_def)
  have sch: "PaymentPayload.scheme ex_exact_payload = ''exact''" "PaymentPayload.scheme ?F = ''exact''"
    by (simp_all add: ex_defs)
  have req: "parseEther ?lib (JStr (maxAmountRequired ?R)) = Inr 1000000000000000"
    by (simp add: ex_defs)
  have paid: "parseEther ?lib (JStr (amount (PaymentPayload.payload ex_exact_payload)))
                = Inr 1000000000000000"
    "parseEther ?lib (JStr (amount (PaymentPayload.payload ?F))) = Inr 1000000000000000"
    by (simp_all add: ex_defs)
  have ff: "firstFailure (requestChecks ex_exact_payload ?R 1000000000000000 1000000000000000
              (1700000010000 div 1000)) = None"
    "firstFailure (requestChecks ?F ?R 1000000000000000 1000000000000000
              (1700000010000 div 1000)) = None"
    by (simp_all add: check_defs ex_defs)
  have tr: "truthy (PaymentData.signature (PaymentPayload.payload ex_exact_payload))"
    "truthy (PaymentData.signature (PaymentPayload.payload ?F))"
    by (simp_all add: ex_defs truthy_def)
  have s1: "signerIsSender ?lib ex_exact_payload 1000000000000000"
    by (simp add: signerIsSender_def ex_defs string_defs)
  have s2: "\<not> signerIsSender ?lib ?F 1000000000000000"
    by (simp add: signerIsSender_def ex_defs string_defs)
  show ?thesis
    using s1 s2
      exact_signature_binds_sender [OF pres(1) dec(1) sch(1) req paid(1) ff(1) tr(1), where nowMsZk = 1700000010000
            and c = 31337 and used = "{}"]
      exact_signature_binds_sender [OF pres(2) dec(2) sch(2) req paid(2) ff(2) tr(2), where nowMsZk = 1700000010000
            and c = 31337 and used = "{}"]
    by simp
qed

text \<open>
  Claim C9. A payload of version 1 with the requirement's scheme, a sufficient amount
  and a fresh timestamp is valid without any cryptographic check when its scheme is
  \<open>zk-exact\<close> and it has no proof, or its scheme is \<open>exact\<close> and it has no (or an empty)
  signature: the result is the same whatever the encoding, hashing and recovery
  functions are, and whatever the nullifier store holds.
\<close>

theorem verifyPaymentFromRequest_accepts_without_crypto:
  assumes "presents request h" and "decodePaymentPayload lib h = Inr (payloadJson p)"
    and "x402Version p = 1"
    and "PaymentPayload.scheme p = PaymentRequirements.scheme requirements"
    and "parseEther lib (JStr (maxAmountRequired requirements)) = Inr requiredAmount"
    and "parseEther lib (JStr (amount (PaymentPayload.payload p))) = Inr paidAmount"
    and "requiredAmount \<le> paidAmount"
    and "nowMs div 1000 - PaymentData.timestamp (PaymentPayload.payload p) \<le> 300"
    and "(PaymentPayload.scheme p = ''zk-exact'' \<and> zkProof (PaymentPayload.payload p) = None)
         \<or> (PaymentPayload.scheme p = ''exact''
             \<and> \<not> truthy (PaymentData.signature (PaymentPayload.payload p)))"
  shows "verifyPaymentFromRequest
           (lib\<lparr>abiEncode := enc, keccak256 := kec, getBytes := gb, verifyMessage := vm\<rparr>)
           nowMs nowMsZk request requirements c used
         = \<lparr>VerifyResult.valid = True, payload = Some (payloadJson p), error = None\<rparr>"
proof -
  let ?lib = "lib\<lparr>abiEncode := enc, keccak256 := kec, getBytes := gb, verifyMessage := vm\<rparr>"
  have dec: "decodePaymentPayload ?lib h = Inr (payloadJson p)"
    using assms(2) by (simp add: decodePaymentPayload_def)
  have req: "parseEther ?lib (JStr (maxAmountRequired requirements)) = Inr requiredAmount"
    and paid: "parseEther ?lib (JStr (amount (PaymentPayload.payload p))) = Inr paidAmount"
    using assms(5,6) by simp_all
  have checks: "firstFailure (requestChecks p requirements requiredAmount paidAmount
                                (nowMs div 1000)) = None"
    using assms(3,4,7,8) by (simp add: check_defs)
  have "schemeVerification ?lib nowMsZk (payloadJson p) requirements c used paidAmount
          = \<lparr>VerifyResult.valid = True, payload = Some (payloadJson p), error = None\<rparr>"
    using assms(9)
    by (auto simp: schemeVerification_def zkStep_typed exactStep_typed)
  then show ?thesis
    by (simp add: verify_decoded [OF assms(1) dec req paid] checks)
qed

text \<open>
  A payload of scheme \<open>zk-exact\<close> without proof, accepted although the store holds the
  example nullifier, and a payload of scheme \<open>exact\<close> without signature.
\<close>

theorem verifyPaymentFromRequest_accepts_without_crypto_witness:
  "VerifyResult.valid (verifyPaymentFromRequest (ex_lib ex_table) 1700000010000 1700000010000
      (ex_request ''zk-noproof'') (ex_requirements True) 31337 {JStr ''0x01''})
   \<and> VerifyResult.valid (verifyPaymentFromRequest (ex_lib ex_table) 1700000010000 1700000010000
      (ex_request ''exact-nosig'') (ex_requirements False) 31337 {})"
proof -
  let ?lib = "ex_lib ex_table"
  let ?zk = "ex_zk_payload\<lparr>PaymentPayload.payload := ex_data\<rparr>"
  let ?ex = "ex_exact_payload\<lparr>PaymentPayload.payload := ex_data\<rparr>"
  have lib: "?lib\<lparr>abiEncode := abiEncode ?lib, keccak256 := keccak256 ?lib,
               getBytes := getBytes ?lib, verifyMessage := verifyMessage ?lib\<rparr> = ?lib"
    by simp
  have z1: "presents (ex_request ''zk-noproof'') ''zk-noproof''"
    by (simp add: presents_def ex_defs string_defs)
  have z2: "decodePaymentPayload ?lib ''zk-noproof'' = Inr (payloadJson ?zk)"
    by (simp add: decodePaymentPayload_def ex_defs)
  have z3: "x402Version ?zk = 1"
    "PaymentPayload.scheme ?zk = PaymentRequirements.scheme (ex_requirements True)"
    "parseEther ?lib (JStr (maxAmountRequired (ex_requirements True))) = Inr 1000000000000000"
    "parseEther ?lib (JStr (amount (PaymentPayload.payload ?zk))) = Inr 1000000000000000"
    "(1000000000000000::int) \<le> 1000000000000000"
    "1700000010000 div 1000 - PaymentData.timestamp (PaymentPayload.payload ?zk) \<le> 300"
    "(PaymentPayload.scheme ?zk = ''zk-exact'' \<and> zkProof (PaymentPayload.payload ?zk) = None)
         \<or> (PaymentPayload.scheme ?zk = ''exact''
             \<and> \<not> truthy (PaymentData.signature (PaymentPayload.payload ?zk)))"
    by (simp_all add: ex_defs)
  have e1: "presents (ex_request ''exact-nosig'') ''exact-nosig''"
    by (simp add: presents_def ex_defs string_defs)
  have e2: "decodePaymentPayload ?lib ''exact-nosig'' = Inr (payloadJson ?ex)"
    by (simp add: decodePaymentPayload_def ex_defs)
  have e3: "x402Version ?ex = 1"
    "PaymentPayload.scheme ?ex = PaymentRequirements.scheme (ex_requirements False)"
    "parseEther ?lib (JStr (maxAmountRequired (ex_requirements False))) = Inr 1000000000000000"
    "parseEther ?lib (JStr (amount (PaymentPayload.payload ?ex))) = Inr 1000000000000000"
    "(1000000000000000::int) \<le> 1000000000000000"
    "1700000010000 div 1000 - PaymentData.timestamp (PaymentPayload.payload ?ex) \<le> 300"
    "(PaymentPayload.scheme ?ex = ''zk-exact'' \<and> zkProof (PaymentPayload.payload ?ex) = None)
         \<or> (PaymentPayload.scheme ?ex = ''exact''
             \<and> \<not> truthy (PaymentData.signature (PaymentPayload.payload ?ex)))"
    by (simp_all add: ex_defs truthy_def)
  show ?thesis
    using verifyPaymentFromRequest_accepts_without_crypto [where enc = "abiEncode ?lib" and kec = "keccak256 ?lib" and gb = "getBytes ?lib"
                and vm = "verifyMessage ?lib" and nowMsZk = 1700000010000 and c = 31337
                and used = "{JStr ''0x01''}", OF z1 z2 z3]
          verifyPaymentFromRequest_accepts_without_crypto [where enc = "abiEncode ?lib" and kec = "keccak256 ?lib" and gb = "getBytes ?lib"
                and vm = "verifyMessage ?lib" and nowMsZk = 1700000010000 and c = 31337
                and used = "{}", OF e1 e2 e3]
    by (simp only: lib VerifyResult.simps simp_thms)
qed

section \<open>Settlement and the nullifier store\<close>

lemmas settle_defs = settlePayment_def settlePayment_try_def offchainSettlement_def
  onchainSettlement_def markStep_def templateString_def objectToString_def notPrimitive_def

lemma settlePayment_snd:
  "snd (settlePayment lib t p r a s) = (case markStep p s of Inl e \<Rightarrow> s | Inr marked \<Rightarrow> marked)"
  by (simp add: settlePayment_def settlePayment_try_def split: sum.splits)

lemma markStep_typed:
  "markStep (payloadJson p) s =
     Inr (case (if PaymentPayload.scheme p = ''zk-exact'' then zkProof (PaymentPayload.payload p)
                else None) of
            Some zp \<Rightarrow> insert (JStr (ZKPaymentProof.nullifier zp)) s
          | None \<Rightarrow> s)"
  by (simp add: markStep_def embedded split: option.splits)

lemma markStep_mono: "markStep p s = Inr marked \<Longrightarrow> n \<in> s \<Longrightarrow> n \<in> marked"
  by (auto simp: markStep_def markNullifierUsed_def split: sum.splits if_splits)

lemma settlePayment_store:
  "snd (settlePayment lib t (payloadJson p) r a s) =
     (case (if PaymentPayload.scheme p = ''zk-exact'' then zkProof (PaymentPayload.payload p)
            else None) of
        Some zp \<Rightarrow> insert (JStr (ZKPaymentProof.nullifier zp)) s
      | None \<Rightarrow> s)"
  by (simp add: settlePayment_snd markStep_typed)

lemma settlePayment_mono: "n \<in> s \<Longrightarrow> n \<in> snd (settlePayment lib t p r a s)"
  by (cases "markStep p s") (simp_all add: settlePayment_snd markStep_mono)

lemma settleAll_Nil: "settleAll lib [] s = s"
  by (simp add: settleAll_def)

lemma settleAll_Cons:
  "settleAll lib ((t, p, r, a) # calls) s = settleAll lib calls (snd (settlePayment lib t p r a s))"
  by (simp add: settleAll_def)

lemma settleAll_mono: "n \<in> s \<Longrightarrow> n \<in> settleAll lib calls s"
proof (induction calls arbitrary: s)
  case Nil
  then show ?case by (simp add: settleAll_Nil)
next
  case (Cons call calls)
  obtain t p r a where call: "call = (t, p, r, a)"
    by (cases call) blast
  have "n \<in> snd (settlePayment lib t p r a s)"
    using Cons.prems by (rule settlePayment_mono)
  then have "n \<in> settleAll lib calls (snd (settlePayment lib t p r a s))"
    by (rule Cons.IH)
  then show ?case
    by (simp only: call settleAll_Cons)
qed

text \<open>What the proof block answers when the nullifier is in the store\<close>

lemma schemeVerification_spent:
  assumes "PaymentPayload.scheme p = ''zk-exact''"
    and "zkProof (PaymentPayload.payload p) = Some zp"
    and "JStr (ZKPaymentProof.nullifier zp) \<in> used"
  shows "schemeVerification lib nowMsZk (payloadJson p) requirements c used paidAmount =
           vFail (if ZKVerificationResult.valid
                       (verifyPaymentProof lib nowMsZk (proofJson zp) c
                          (or_default (PaymentRequirements.contractAddress requirements) []))
                  then ''Payment already used (nullifier spent)''
                  else ''ZK proof invalid: ''
                         @ interpolate
                             (ZKVerificationResult.error
                                (verifyPaymentProof lib nowMsZk (proofJson zp) c
                                   (or_default (PaymentRequirements.contractAddress requirements)
                                      []))))"
  using assms by (simp add: schemeVerification_def zkStep_typed proofVerdict_def Let_def)

lemma verify_unparsed:
  assumes "presents request h" and "decodePaymentPayload lib h = Inr (payloadJson p)"
    and "firstFailure (take 2 (requestChecks p requirements requiredAmount paidAmount now)) = None"
    and "parseEther lib (JStr (maxAmountRequired requirements)) = Inl msg
         \<or> (parseEther lib (JStr (maxAmountRequired requirements)) = Inr requiredAmount'
             \<and> parseEther lib (JStr (amount (PaymentPayload.payload p))) = Inl msg)"
  shows "verifyPaymentFromRequest lib nowMs nowMsZk request requirements c used
           = vFail (''Payment verification failed: '' @ msg)"
  using assms(2-)
  by (auto simp: verify_presented [OF assms(1)] verifyPaymentFromRequest_try_def firstFailure_def
        requestChecks_def embedded split: if_splits)

lemma spent_rejected:
  assumes "presents request h" and "decodePaymentPayload lib h = Inr (payloadJson p)"
    and "PaymentPayload.scheme p = ''zk-exact''"
    and "zkProof (PaymentPayload.payload p) = Some zp"
    and "JStr (ZKPaymentProof.nullifier zp) \<in> used"
  shows "\<not> VerifyResult.valid
             (verifyPaymentFromRequest lib nowMs nowMsZk request requirements c used)"
proof (cases "firstFailure (take 2 (requestChecks p requirements 0 0 (nowMs div 1000)))")
  case (Some e)
  then show ?thesis
    by (simp add: verify_early [OF assms(1,2) Some] vFail_def)
next
  case None
  show ?thesis
  proof (cases "parseEther lib (JStr (maxAmountRequired requirements))")
    case (Inl msg)
    then show ?thesis
      by (simp add: verify_unparsed [OF assms(1,2) None disjI1 [OF Inl]] vFail_def)
  next
    case req: (Inr requiredAmount)
    show ?thesis
    proof (cases "parseEther lib (JStr (amount (PaymentPayload.payload p)))")
      case (Inl msg)
      then show ?thesis
        by (simp add: verify_unparsed [OF assms(1,2) None disjI2 [OF conjI [OF req Inl]]]
              vFail_def)
    next
      case (Inr paidAmount)
      show ?thesis
        unfolding verify_decoded [OF assms(1,2) req Inr]
          schemeVerification_spent [OF assms(3,4,5)]
        by (simp add: vFail_def split: option.splits)
    qed
  qed
qed

text \<open>
  Claim C1, as stated, fails in three ways. The nullifier is looked up by
  \<open>verifyPaymentFromRequest\<close> and marked by \<open>settlePayment\<close>, and the business handler
  runs between the two: two presentations of the example payment are both verified
  against the store in which the nullifier is not marked, and both are then settled
  with success.
  After the settlement, the same payload presented 301 seconds after its timestamp is
  rejected with \<open>Payment expired\<close>, not with the nullifier error, because the expiry
  check comes first. And a payload of scheme \<open>exact\<close> that carries the spent proof is
  accepted: the proof block is entered for the scheme \<open>zk-exact\<close> only.
\<close>

theorem double_verification_counterexample:
  "\<not> isNullifierUsed (JStr ''0x01'') {}
   \<and> VerifyResult.valid (verifyPaymentFromRequest (ex_lib ex_table) 1700000010000 1700000010000
      (ex_request ''zk'') (ex_requirements True) 31337 {})
   \<and> VerifyResult.valid (verifyPaymentFromRequest (ex_lib ex_table) 1700000012000 1700000012000
      (ex_request ''zk'') (ex_requirements True) 31337 {})
   \<and> settlePayment (ex_lib ex_table) 1700000013000 (payloadJson ex_zk_payload)
        (ex_requirements True) None {}
      = (\<lparr>success = True, txHash = None, receipt = Some ''offchain:n1:0'', error = None\<rparr>,
         {JStr ''0x01''})
   \<and> settlePayment (ex_lib ex_table) 1700000014000 (payloadJson ex_zk_payload)
        (ex_requirements True) None {JStr ''0x01''}
      = (\<lparr>success = True, txHash = None, receipt = Some ''offchain:n1:0'', error = None\<rparr>,
         {JStr ''0x01''})
   \<and> verifyPaymentFromRequest (ex_lib ex_table) 1700000301000 1700000301000
        (ex_request ''zk'') (ex_requirements True) 31337 {JStr ''0x01''}
      = vFail ''Payment expired''
   \<and> VerifyResult.valid (verifyPaymentFromRequest (ex_lib ex_table) 1700000010000 1700000010000
        (ex_request ''exact-spent'') (ex_requirements False) 31337 {JStr ''0x01''})"
  by (simp add: ex_defs string_defs verify_defs embedded verifyPaymentProof_typed check_defs
        settle_defs ZeroAddress_def)

text \<open>
  Claim C1, amended. Once a \<open>zk-exact\<close> payment whose proof carries the nullifier \<open>n\<close>
  has been settled, and whatever settlements follow, every later
  \<open>verifyPaymentFromRequest\<close> call that presents a \<open>zk-exact\<close> payload whose proof
  carries \<open>n\<close> returns valid = false. Its error is that of the first step that fails,
  in this order: the version, the scheme, the parsing of the required and of the paid
  amount (\<open>Payment verification failed: ...\<close>), the amount, the expiry, the proof
  (\<open>ZK proof invalid: ...\<close>); when none fails, it is the nullifier error.
\<close>

theorem nullifier_spent_after_settlement:
  assumes "PaymentPayload.scheme p0 = ''zk-exact''"
    and "zkProof (PaymentPayload.payload p0) = Some zp0"
    and "used = settleAll lib later (snd (settlePayment lib t0 (payloadJson p0) r0 a0 s0))"
    and "presents request h" and "decodePaymentPayload lib h = Inr (payloadJson p)"
    and "PaymentPayload.scheme p = ''zk-exact''"
    and "zkProof (PaymentPayload.payload p) = Some zp"
    and "ZKPaymentProof.nullifier zp = ZKPaymentProof.nullifier zp0"
  shows "\<not> VerifyResult.valid
             (verifyPaymentFromRequest lib nowMs nowMsZk request requirements c used)
       \<and> (firstFailure (take 2 (requestChecks p requirements requiredAmount paidAmount
                                  (nowMs div 1000))) = Some e
            \<longrightarrow> verifyPaymentFromRequest lib nowMs nowMsZk request requirements c used = vFail e)
       \<and> (firstFailure (take 2 (requestChecks p requirements requiredAmount paidAmount
                                  (nowMs div 1000))) = None
            \<and> (parseEther lib (JStr (maxAmountRequired requirements)) = Inl msg
                \<or> (parseEther lib (JStr (maxAmountRequired requirements)) = Inr requiredAmount
                    \<and> parseEther lib (JStr (amount (PaymentPayload.payload p))) = Inl msg))
            \<longrightarrow> verifyPaymentFromRequest lib nowMs nowMsZk request requirements c used
                  = vFail (''Payment verification failed: '' @ msg))
       \<and> (parseEther lib (JStr (maxAmountRequired requirements)) = Inr requiredAmount
            \<and> parseEther lib (JStr (amount (PaymentPayload.payload p))) = Inr paidAmount
            \<longrightarrow> verifyPaymentFromRequest lib nowMs nowMsZk request requirements c used
                 = vFail (case firstFailure (requestChecks p requirements requiredAmount paidAmount
                                               (nowMs div 1000)) of
                            Some e' \<Rightarrow> e'
                          | None \<Rightarrow>
                              if ZKVerificationResult.valid
                                   (verifyPaymentProof lib nowMsZk (proofJson zp) c
                                      (or_default (PaymentRequirements.contractAddress requirements) []))
                              then ''Payment already used (nullifier spent)''
                              else ''ZK proof invalid: ''
                                     @ interpolate
                                         (ZKVerificationResult.error
                                            (verifyPaymentProof lib nowMsZk (proofJson zp) c
                                               (or_default
                                                  (PaymentRequirements.contractAddress requirements)
                                                  [])))))"
proof -
  have "JStr (ZKPaymentProof.nullifier zp0) \<in> snd (settlePayment lib t0 (payloadJson p0) r0 a0 s0)"
    using assms(1,2) by (simp add: settlePayment_store)
  then have spent: "JStr (ZKPaymentProof.nullifier zp) \<in> used"
    using assms(3,8) by (simp add: settleAll_mono)
  show ?thesis
  proof (intro conjI impI)
    show "\<not> VerifyResult.valid
             (verifyPaymentFromRequest lib nowMs nowMsZk request requirements c used)"
      by (rule spent_rejected [OF assms(4,5,6,7) spent])
  next
    assume "firstFailure (take 2 (requestChecks p requirements requiredAmount paidAmount
                                  (nowMs div 1000))) = Some e"
    then show "verifyPaymentFromRequest lib nowMs nowMsZk request requirements c used = vFail e"
      by (rule verify_early [OF assms(4,5)])
  next
    assume a: "firstFailure (take 2 (requestChecks p requirements requiredAmount paidAmount
                                  (nowMs div 1000))) = None
            \<and> (parseEther lib (JStr (maxAmountRequired requirements)) = Inl msg
                \<or> (parseEther lib (JStr (maxAmountRequired requirements)) = Inr requiredAmount
                    \<and> parseEther lib (JStr (amount (PaymentPayload.payload p))) = Inl msg))"
    show "verifyPaymentFromRequest lib nowMs nowMsZk request requirements c used
                  = vFail (''Payment verification failed: '' @ msg)"
      by (rule verify_unparsed [OF assms(4,5) conjunct1 [OF a] conjunct2 [OF a]])
  next
    assume a: "parseEther lib (JStr (maxAmountRequired requirements)) = Inr requiredAmount
            \<and> parseEther lib (JStr (amount (PaymentPayload.payload p))) = Inr paidAmount"
    show "verifyPaymentFromRequest lib nowMs nowMsZk request requirements c used
                 = vFail (case firstFailure (requestChecks p requirements requiredAmount paidAmount
                                               (nowMs div 1000)) of
                            Some e' \<Rightarrow> e'
                          | None \<Rightarrow>
                              if ZKVerificationResult.valid
                                   (verifyPaymentProof lib nowMsZk (proofJson zp) c
                                      (or_default (PaymentRequirements.contractAddress requirements) []))
                              then ''Payment already used (nullifier spent)''
                              else ''ZK proof invalid: ''
                                     @ interpolate
                                         (ZKVerificationResult.error
                                            (verifyPaymentProof lib nowMsZk (proofJson zp) c
                                               (or_default
                                                  (PaymentRequirements.contractAddress requirements)
                                                  []))))"
      unfolding verify_decoded [OF assms(4,5) conjunct1 [OF a] conjunct2 [OF a]]
        schemeVerification_spent [OF assms(6,7) spent]
      by (simp split: option.splits)
  qed
qed

text \<open>
  The settled example payload presented again: in time, to a server of another chain,
  301 seconds after its timestamp, with version 2, and against a price that does not
  parse.
\<close>

theorem nullifier_spent_after_settlement_witness:
  "verifyPaymentFromRequest (ex_lib ex_table) 1700000020000 1700000020000
      (ex_request ''zk'') (ex_requirements True) 31337 {JStr ''0x01''}
      = vFail ''Payment already used (nullifier spent)''
   \<and> verifyPaymentFromRequest (ex_lib ex_table) 1700000020000 1700000020000
      (ex_request ''zk'') (ex_requirements True) 1 {JStr ''0x01''}
      = vFail ''ZK proof invalid: Chain ID mismatch''
   \<and> verifyPaymentFromRequest (ex_lib ex_table) 1700000301000 1700000301000
      (ex_request ''zk'') (ex_requirements True) 31337 {JStr ''0x01''}
      = vFail ''Payment expired''
   \<and> verifyPaymentFromRequest (ex_lib ex_table) 1700000020000 1700000020000
      (ex_request ''zk-v2'') (ex_requirements True) 31337 {JStr ''0x01''}
      = vFail ''Unsupported x402 version''
   \<and> verifyPaymentFromRequest (ex_lib ex_table) 1700000020000 1700000020000
      (ex_request ''zk'') ((ex_requirements True)\<lparr>maxAmountRequired := ''free''\<rparr>) 31337
      {JStr ''0x01''}
      = vFail ''Payment verification failed: invalid FixedNumber string value''"
proof -
  let ?lib = "ex_lib ex_table"
  let ?R = "ex_requirements True"
  let ?F = "(ex_requirements True)\<lparr>maxAmountRequired := ''free''\<rparr>"
  let ?v2 = "ex_zk_payload\<lparr>x402Version := 2\<rparr>"
  have 1: "PaymentPayload.scheme ex_zk_payload = ''zk-exact''"
    "zkProof (PaymentPayload.payload ex_zk_payload) = Some ex_proof"
    by (simp_all add: ex_defs)
  have 2: "PaymentPayload.scheme ?v2 = ''zk-exact''"
    "zkProof (PaymentPayload.payload ?v2) = Some ex_proof"
    by (simp_all add: ex_defs)
  have 3: "{JStr ''0x01''}
             = settleAll ?lib [] (snd (settlePayment ?lib 1700000011000 (payloadJson ex_zk_payload)
                                         ?R None {}))"
    by (simp add: settleAll_def settlePayment_store ex_defs)
  have 4: "presents (ex_request ''zk'') ''zk''" "presents (ex_request ''zk-v2'') ''zk-v2''"
    by (simp_all add: presents_def ex_defs string_defs)
  have 5: "decodePaymentPayload ?lib ''zk'' = Inr (payloadJson ex_zk_payload)"
    "decodePaymentPayload ?lib ''zk-v2'' = Inr (payloadJson ?v2)"
    by (simp_all add: decodePaymentPayload_def ex_lib_def ex_table_def)
  have req: "parseEther ?lib (JStr (maxAmountRequired ?R)) = Inr 1000000000000000"
    "parseEther ?lib (JStr (maxAmountRequired ?F)) = Inl ''invalid FixedNumber string value''"
    by (simp_all add: ex_defs)
  have paid: "parseEther ?lib (JStr (amount (PaymentPayload.payload ex_zk_payload)))
                = Inr 1000000000000000"
    by (simp add: ex_defs)
  have f: "firstFailure (requestChecks ex_zk_payload ?R 1000000000000000 1000000000000000
              (1700000020000 div 1000)) = None"
    "firstFailure (requestChecks ex_zk_payload ?R 1000000000000000 1000000000000000
              (1700000301000 div 1000)) = Some ''Payment expired''"
    "firstFailure (take 2 (requestChecks ?v2 ?R 0 0 (1700000020000 div 1000)))
       = Some ''Unsupported x402 version''"
    "firstFailure (take 2 (requestChecks ex_zk_payload ?F 0 0 (1700000020000 div 1000))) = None"
    by (simp_all add: check_defs ex_defs)
  have zk: "verifyPaymentProof ?lib 1700000020000 (proofJson ex_proof) 31337
              (or_default (PaymentRequirements.contractAddress ?R) [])
            = \<lparr>ZKVerificationResult.valid = True, error = None,
               commitment = Some (JStr ''0xc1''), nullifier = Some (JStr ''0x01'')\<rparr>"
    "verifyPaymentProof ?lib 1700000020000 (proofJson ex_proof) 1
              (or_default (PaymentRequirements.contractAddress ?R) [])
            = zkFail ''Chain ID mismatch''"
    by (simp_all add: verifyPaymentProof_typed check_defs ex_defs string_defs ZeroAddress_def)
  note spent = nullifier_spent_after_settlement [OF 1 3 4(1) 5(1) 1 refl,
      where nowMs = 1700000020000 and nowMsZk = 1700000020000 and requirements = ?R
        and c = 31337 and requiredAmount = 1000000000000000 and paidAmount = 1000000000000000]
  note chain = nullifier_spent_after_settlement [OF 1 3 4(1) 5(1) 1 refl,
      where nowMs = 1700000020000 and nowMsZk = 1700000020000 and requirements = ?R
        and c = 1 and requiredAmount = 1000000000000000 and paidAmount = 1000000000000000]
  note late = nullifier_spent_after_settlement [OF 1 3 4(1) 5(1) 1 refl,
      where nowMs = 1700000301000 and nowMsZk = 1700000301000 and requirements = ?R
        and c = 31337 and requiredAmount = 1000000000000000 and paidAmount = 1000000000000000]
  note version = nullifier_spent_after_settlement [OF 1 3 4(2) 5(2) 2 refl,
      where nowMs = 1700000020000 and nowMsZk = 1700000020000 and requirements = ?R
        and c = 31337 and requiredAmount = 0 and paidAmount = 0
        and e = "''Unsupported x402 version''"]
  note price = nullifier_spent_after_settlement [OF 1 3 4(1) 5(1) 1 refl,
      where nowMs = 1700000020000 and nowMsZk = 1700000020000 and requirements = ?F
        and c = 31337 and requiredAmount = 0 and paidAmount = 0
        and msg = "''invalid FixedNumber string value''"]
  have a: "verifyPaymentFromRequest ?lib 1700000020000 1700000020000
      (ex_request ''zk'') ?R 31337 {JStr ''0x01''} = vFail ''Payment already used (nullifier spent)''"
    using spent req(1) paid f(1) by (simp add: zk zkFail_def)
  have b: "verifyPaymentFromRequest ?lib 1700000020000 1700000020000
      (ex_request ''zk'') ?R 1 {JStr ''0x01''} = vFail ''ZK proof invalid: Chain ID mismatch''"
    using chain req(1) paid f(1) by (simp add: zk zkFail_def interpolate_def)
  have c: "verifyPaymentFromRequest ?lib 1700000301000 1700000301000
      (ex_request ''zk'') ?R 31337 {JStr ''0x01''} = vFail ''Payment expired''"
    using late req(1) paid f(2) by simp
  have d: "verifyPaymentFromRequest ?lib 1700000020000 1700000020000
      (ex_request ''zk-v2'') ?R 31337 {JStr ''0x01''} = vFail ''Unsupported x402 version''"
    using version f(3) by simp
  have e: "verifyPaymentFromRequest ?lib 1700000020000 1700000020000
      (ex_request ''zk'') ?F 31337 {JStr ''0x01''}
      = vFail ''Payment verification failed: invalid FixedNumber string value''"
    using price f(4) req(2) by simp
  show ?thesis
    using a b c d e by simp
qed

lemma settlePayment_failure:
  assumes "truthy (PaymentRequirements.contractAddress requirements)"
    and "onchainSettlement lib nowMs (payloadJson p) requirements signer = Inl msg"
  shows "fst (settlePayment lib nowMs (payloadJson p) requirements (Some signer) used)
           = \<lparr>success = False, txHash = None, receipt = None,
               error = Some (''Settlement failed: '' @ msg)\<rparr>"
  using assms by (simp add: settlePayment_def settlePayment_try_def markStep_typed)

text \<open>
  Claim C7. \<open>settlePayment\<close> marks the nullifier of a \<open>zk-exact\<close> payload before the
  transfer: when the on-chain settlement (parsing the amount, sending the transaction or
  waiting for its receipt) throws, the result is \<open>success = false\<close> with the error
  \<open>Settlement failed: ...\<close>, the nullifier is in the store all the same, and a later
  request that presents the same payload is rejected.
\<close>

theorem settlement_failure_keeps_nullifier:
  assumes "PaymentPayload.scheme p = ''zk-exact''"
    and "zkProof (PaymentPayload.payload p) = Some zp"
    and "truthy (PaymentRequirements.contractAddress requirements)"
    and "onchainSettlement lib nowMs (payloadJson p) requirements signer = Inl msg"
    and "presents request h" and "decodePaymentPayload lib h = Inr (payloadJson p)"
  shows "settlePayment lib nowMs (payloadJson p) requirements (Some signer) used
           = (\<lparr>success = False, txHash = None, receipt = None,
                error = Some (''Settlement failed: '' @ msg)\<rparr>,
              insert (JStr (ZKPaymentProof.nullifier zp)) used)
       \<and> \<not> VerifyResult.valid
             (verifyPaymentFromRequest lib laterMs laterMsZk request requirements' c
                (snd (settlePayment lib nowMs (payloadJson p) requirements (Some signer) used)))"
proof -
  have store: "snd (settlePayment lib nowMs (payloadJson p) requirements (Some signer) used)
                 = insert (JStr (ZKPaymentProof.nullifier zp)) used"
    using assms(1,2) by (simp add: settlePayment_store)
  have "settlePayment lib nowMs (payloadJson p) requirements (Some signer) used
          = (fst (settlePayment lib nowMs (payloadJson p) requirements (Some signer) used),
             snd (settlePayment lib nowMs (payloadJson p) requirements (Some signer) used))"
    by simp
  then have first: "settlePayment lib nowMs (payloadJson p) requirements (Some signer) used
           = (\<lparr>success = False, txHash = None, receipt = None,
                error = Some (''Settlement failed: '' @ msg)\<rparr>,
              insert (JStr (ZKPaymentProof.nullifier zp)) used)"
    by (simp only: settlePayment_failure [OF assms(3,4)] store)
  have "JStr (ZKPaymentProof.nullifier zp)
          \<in> snd (settlePayment lib nowMs (payloadJson p) requirements (Some signer) used)"
    by (simp add: store)
  then have "\<not> VerifyResult.valid
             (verifyPaymentFromRequest lib laterMs laterMsZk request requirements' c
                (snd (settlePayment lib nowMs (payloadJson p) requirements (Some signer) used)))"
    by (rule spent_rejected [OF assms(5,6,1,2)])
  with first show ?thesis by blast
qed

text \<open>
  The example payload, settled through a signer whose transfer is refused.
\<close>

theorem settlement_failure_keeps_nullifier_witness:
  "onchainSettlement (ex_lib ex_table) 1700000011000 (payloadJson ex_zk_payload)
       (ex_requirements True) ex_failing_signer = Inl ''insufficient funds''
   \<and> settlePayment (ex_lib ex_table) 1700000011000 (payloadJson ex_zk_payload)
       (ex_requirements True) (Some ex_failing_signer) {}
       = (\<lparr>success = False, txHash = None, receipt = None,
            error = Some ''Settlement failed: insufficient funds''\<rparr>, {JStr ''0x01''})
   \<and> \<not> VerifyResult.valid
         (verifyPaymentFromRequest (ex_lib ex_table) 1700000020000 1700000020000
            (ex_request ''zk'') (ex_requirements True) 31337 {JStr ''0x01''})"
proof -
  let ?lib = "ex_lib ex_table"
  let ?R = "ex_requirements True"
  have 1: "PaymentPayload.scheme ex_zk_payload = ''zk-exact''"
    "zkProof (PaymentPayload.payload ex_zk_payload) = Some ex_proof"
    by (simp_all add: ex_defs)
  have 3: "truthy (PaymentRequirements.contractAddress ?R)"
    by (simp add: ex_defs truthy_def)
  have 4: "onchainSettlement ?lib 1700000011000 (payloadJson ex_zk_payload) ?R ex_failing_signer
             = Inl ''insufficient funds''"
    by (simp add: onchainSettlement_def ex_failing_signer_def ex_defs embedded)
  have 5: "presents (ex_request ''zk'') ''zk''"
    by (simp add: presents_def ex_defs string_defs)
  have 6: "decodePaymentPayload ?lib ''zk'' = Inr (payloadJson ex_zk_payload)"
    by (simp add: decodePaymentPayload_def ex_lib_def ex_table_def)
  have 7: "ZKPaymentProof.nullifier ex_proof = ''0x01''"
    by (simp add: ex_defs)
  note r = settlement_failure_keeps_nullifier [OF 1 3 4 5 6, where used = "{}" and laterMs = 1700000020000
                 and laterMsZk = 1700000020000 and requirements' = ?R and c = 31337]
  have a: "settlePayment ?lib 1700000011000 (payloadJson ex_zk_payload) ?R (Some ex_failing_signer) {}
       = (\<lparr>success = False, txHash = None, receipt = None,
            error = Some ''Settlement failed: insufficient funds''\<rparr>, {JStr ''0x01''})"
    using r 7 by simp
  have b: "\<not> VerifyResult.valid
         (verifyPaymentFromRequest ?lib 1700000020000 1700000020000
            (ex_request ''zk'') ?R 31337 {JStr ''0x01''})"
    using r unfolding a by (simp add: 7)
  show ?thesis
    using 4 a b by simp
qed

section \<open>The middleware\<close>

lemma headers_get_set: "headers_get (headers_set name v hs) name = Some v"
proof -
  have "map_of (filter (\<lambda>kv. fst kv \<noteq> asciiLower name) hs) (asciiLower name) = None"
    by (auto simp: map_of_eq_None_iff)
  then show ?thesis
    by (simp add: headers_get_def headers_set_def map_add_def)
qed

lemma payment_required_header:
  "headers_get (Response.headers (createPaymentRequiredResponse lib requirements message))
     ''PAYMENT-REQUIRED'' = Some (base64Encode lib (jsonRequirements lib requirements))"
  by (simp add: createPaymentRequiredResponse_def encodePaymentRequired_def headers_get_def
        headers_set_def asciiLower_def lower_char_def)

lemma rejection_vFail: "rejection (vFail e) = (e \<noteq> [])"
  by (simp add: rejection_def vFail_def)

lemma rejection_invalid: "rejection r \<Longrightarrow> \<not> VerifyResult.valid r"
  by (auto simp: rejection_def vFail_def split: option.splits)

lemma zkStep_rejects:
  "zkStep lib nowMsZk p requirements c used = Some r \<Longrightarrow> rejection r"
  by (auto simp: zkStep_def Let_def rejection_vFail split: if_splits)

lemma exactStep_rejects:
  "exactStep lib p paid = Inr (Some r) \<Longrightarrow> rejection r"
  by (auto simp: exactStep_def Let_def rejection_vFail split: if_splits sum.splits)

lemma try_result:
  assumes "decodePaymentPayload lib h = Inr p"
    and "verifyPaymentFromRequest_try lib nowMs nowMsZk h requirements c used = Inr r"
  shows "rejection r
       \<or> (r = \<lparr>VerifyResult.valid = True, payload = Some p, error = None\<rparr>
           \<and> property p ''x402Version'' = Inr (JNum 1)
           \<and> property (field p ''payload'') ''amount''
               = Inr (field (field p ''payload'') ''amount''))"
  using assms
  by (auto simp: verifyPaymentFromRequest_try_def Let_def rejection_vFail field_def
        split: sum.splits option.splits if_splits bool.splits
        dest: zkStep_rejects exactStep_rejects)

lemma versioned_truthy: "property p ''x402Version'' = Inr (JNum 1) \<Longrightarrow> truthyJ p"
  by (cases p) (simp_all add: property_def truthyJ_def)

lemma verify_shape:
  "VerifyResult.valid (verifyPaymentFromRequest lib nowMs nowMsZk request requirements c used)
   \<or> rejection (verifyPaymentFromRequest lib nowMs nowMsZk request requirements c used)"
proof (cases "or_else (headers_get (Request.headers request) ''payment-signature'')
                      (headers_get (Request.headers request) ''x-payment'')")
  case None
  then show ?thesis
    by (simp add: verifyPaymentFromRequest_def rejection_vFail)
next
  case (Some h)
  show ?thesis
  proof (cases "h = []")
    case True
    then show ?thesis
      using Some by (simp add: verifyPaymentFromRequest_def rejection_vFail)
  next
    case False
    then have pres: "presents request h"
      using Some by (simp add: presents_def)
    show ?thesis
    proof (cases "verifyPaymentFromRequest_try lib nowMs nowMsZk h requirements c used")
      case (Inl msg)
      then show ?thesis
        by (simp add: verify_presented [OF pres] rejection_vFail)
    next
      case (Inr r)
      then obtain p where dec: "decodePaymentPayload lib h = Inr p"
        by (cases "decodePaymentPayload lib h")
           (simp_all add: verifyPaymentFromRequest_try_def)
      show ?thesis
        using try_result [OF dec Inr] Inr
        by (auto simp: verify_presented [OF pres])
    qed
  qed
qed

lemma verify_valid:
  assumes "presents request h" and "decodePaymentPayload lib h = Inr p"
    and "VerifyResult.valid
           (verifyPaymentFromRequest lib nowMs nowMsZk request requirements c used)"
  shows "verifyPaymentFromRequest lib nowMs nowMsZk request requirements c used
           = \<lparr>VerifyResult.valid = True, payload = Some p, error = None\<rparr>
       \<and> truthyJ p"
proof (cases "verifyPaymentFromRequest_try lib nowMs nowMsZk h requirements c used")
  case (Inl msg)
  then show ?thesis
    using assms(3) by (simp add: verify_presented [OF assms(1)] vFail_def)
next
  case (Inr r)
  then have "VerifyResult.valid r"
    using assms(3) by (simp add: verify_presented [OF assms(1)])
  then show ?thesis
    using try_result [OF assms(2) Inr] Inr rejection_invalid [of r] versioned_truthy [of p]
    by (auto simp: verify_presented [OF assms(1)])
qed

text \<open>
  Claim C6, as stated, fails for a malformed payload: a decoded value whose \<open>payload\<close>
  has neither \<open>timestamp\<close> nor \<open>signature\<close> is no \<open>PaymentPayload\<close>, yet under the
  scheme \<open>exact\<close> it is accepted (its age is \<open>NaN\<close>, which does not exceed 300), the
  handler is run, and the answer is the handler's 200.
\<close>

theorem malformed_payload_accepted_counterexample:
  "decodePaymentPayload (ex_lib ex_table) ''untimed'' = Inr ex_untimed
   \<and> field (field ex_untimed ''payload'') ''timestamp'' = JUndefined
   \<and> field (field ex_untimed ''payload'') ''signature'' = JUndefined
   \<and> withX402Payment (ex_lib ex_table) ex_handler (ex_config False) 1700000010000 1700000010000
        1700000011000 (ex_request ''untimed'') {} 0
      = (Inr \<lparr>status = 200, body = HandlerBody ''done'',
              Response.headers = [(''payment-response'', ''b64:offchain:n1:0'')]\<rparr>, {}, Suc 0)"
  by (simp add: ex_defs ex_untimed_def string_defs verify_defs property_def field_def
        ageExceeds_def toNumber_def truthyJ_def withX402Payment_def ex_handler_def settle_defs
        addSettlementHeader_def encodeSettlementResponse_def headers_set_def)

text \<open>
  Claim C6, amended. Whenever \<open>verifyPaymentFromRequest\<close> returns valid = false, for
  whatever reason (a failed check, no payment header, a header that does not decode, a
  decoded value from which a property cannot be read), \<open>withX402Payment\<close> answers with
  the 402 response built from the requirements and the non-empty reason: status 402,
  body \<open>{x402Version: 1, error: reason, accepts: [requirements]}\<close>, header
  \<open>PAYMENT-REQUIRED\<close> carrying the base64 encoding of the JSON text of the same
  one-element list. The handler is not run: the result does not mention it, and the
  store and the handler's world are unchanged. No exception escapes.
\<close>

theorem verification_failure_gives_402:
  assumes "\<not> VerifyResult.valid
              (verifyPaymentFromRequest lib nowMs nowMsZk request (requirementsOf config request)
                 (PaymentConfig.chainId config) used)"
  shows "\<exists>reason. reason \<noteq> []
        \<and> VerifyResult.error
             (verifyPaymentFromRequest lib nowMs nowMsZk request (requirementsOf config request)
                (PaymentConfig.chainId config) used) = Some reason
        \<and> withX402Payment lib handler config nowMs nowMsZk nowMsSettle request used w
            = (Inr (createPaymentRequiredResponse lib [requirementsOf config request]
                      (Some reason)), used, w)
        \<and> status (createPaymentRequiredResponse lib [requirementsOf config request] (Some reason))
            = 402
        \<and> body (createPaymentRequiredResponse lib [requirementsOf config request] (Some reason))
            = PaymentRequiredBody 1 reason [requirementsOf config request]
        \<and> headers_get
             (Response.headers
                (createPaymentRequiredResponse lib [requirementsOf config request] (Some reason)))
             ''PAYMENT-REQUIRED''
            = Some (base64Encode lib (jsonRequirements lib [requirementsOf config request]))"
proof -
  let ?v = "verifyPaymentFromRequest lib nowMs nowMsZk request (requirementsOf config request)
              (PaymentConfig.chainId config) used"
  have "rejection ?v"
    using assms verify_shape [of lib nowMs nowMsZk request "requirementsOf config request"
                                "PaymentConfig.chainId config" used]
    by blast
  then obtain reason where e: "VerifyResult.error ?v = Some reason" and r: "reason \<noteq> []"
    by (auto simp: rejection_def split: option.splits)
  have w: "withX402Payment lib handler config nowMs nowMsZk nowMsSettle request used w
            = (Inr (createPaymentRequiredResponse lib [requirementsOf config request]
                      (Some reason)), used, w)"
    using assms e by (simp add: withX402Payment_def Let_def)
  have b: "body (createPaymentRequiredResponse lib [requirementsOf config request] (Some reason))
            = PaymentRequiredBody 1 reason [requirementsOf config request]"
    using r by (simp add: createPaymentRequiredResponse_def or_default_def)
  have s: "status (createPaymentRequiredResponse lib [requirementsOf config request] (Some reason))
            = 402"
    by (simp add: createPaymentRequiredResponse_def)
  note h = payment_required_header [of lib "[requirementsOf config request]" "Some reason"]
  show ?thesis
    using r e w b s h by blast
qed

text \<open>
  A request with no payment header, one whose header does not decode, and one whose
  header decodes to \<open>null\<close>.
\<close>

theorem verification_failure_gives_402_witness:
  "withX402Payment (ex_lib ex_table) ex_handler (ex_config True) 1700000010000 1700000010000
      1700000011000 (ex_request []) {} 0
     = (Inr \<lparr>status = 402,
             body = PaymentRequiredBody 1 ''No payment header provided'' [ex_requirements True],
             Response.headers = [(''payment-required'', ''b64:http://localhost/api/ai/agent''),
                                 (''content-type'', ''application/json'')]\<rparr>, {}, 0)
   \<and> withX402Payment (ex_lib ex_table) ex_handler (ex_config True) 1700000010000 1700000010000
      1700000011000 (ex_request ''garbage'') {} 0
     = (Inr \<lparr>status = 402,
             body = PaymentRequiredBody 1 ''Payment verification failed: Unexpected token''
                      [ex_requirements True],
             Response.headers = [(''payment-required'', ''b64:http://localhost/api/ai/agent''),
                                 (''content-type'', ''application/json'')]\<rparr>, {}, 0)
   \<and> withX402Payment (ex_lib ex_table) ex_handler (ex_config True) 1700000010000 1700000010000
      1700000011000 (ex_request ''null'') {} 0
     = (Inr \<lparr>status = 402,
             body = PaymentRequiredBody 1
                      (''Payment verification failed: ''
                         @ cannotRead ''null'' ''x402Version'') [ex_requirements True],
             Response.headers = [(''payment-required'', ''b64:http://localhost/api/ai/agent''),
                                 (''content-type'', ''application/json'')]\<rparr>, {}, 0)"
proof -
  let ?lib = "ex_lib ex_table"
  let ?v1 = "verifyPaymentFromRequest ?lib 1700000010000 1700000010000 (ex_request [])
               (requirementsOf (ex_config True) (ex_request []))
               (PaymentConfig.chainId (ex_config True)) {}"
  let ?v2 = "verifyPaymentFromRequest ?lib 1700000010000 1700000010000 (ex_request ''garbage'')
               (requirementsOf (ex_config True) (ex_request ''garbage''))
               (PaymentConfig.chainId (ex_config True)) {}"
  let ?v3 = "verifyPaymentFromRequest ?lib 1700000010000 1700000010000 (ex_request ''null'')
               (requirementsOf (ex_config True) (ex_request ''null''))
               (PaymentConfig.chainId (ex_config True)) {}"
  have v1: "?v1 = vFail ''No payment header provided''"
    by (simp add: verifyPaymentFromRequest_def ex_request_def string_defs)
  have v2: "?v2 = vFail ''Payment verification failed: Unexpected token''"
    by (simp add: verifyPaymentFromRequest_def verifyPaymentFromRequest_try_def
          decodePaymentPayload_def ex_request_def ex_lib_def ex_table_def string_defs)
  have v3: "?v3 = vFail (''Payment verification failed: '' @ cannotRead ''null'' ''x402Version'')"
    by (simp add: verifyPaymentFromRequest_def verifyPaymentFromRequest_try_def
          decodePaymentPayload_def ex_request_def ex_lib_def ex_table_def string_defs
          property_def)
  have rq: "requirementsOf (ex_config True) (ex_request ''garbage'') = ex_requirements True"
    "requirementsOf (ex_config True) (ex_request []) = ex_requirements True"
    "requirementsOf (ex_config True) (ex_request ''null'') = ex_requirements True"
    by (simp_all add: ex_requirements_def requirementsOf_def ex_request_def)
  have n1: "\<not> VerifyResult.valid ?v1" by (simp add: v1 vFail_def)
  have n2: "\<not> VerifyResult.valid ?v2" by (simp add: v2 vFail_def)
  have n3: "\<not> VerifyResult.valid ?v3" by (simp add: v3 vFail_def)
  have e1: "VerifyResult.error ?v1 = Some ''No payment header provided''"
    by (simp add: v1 vFail_def)
  have e2: "VerifyResult.error ?v2 = Some ''Payment verification failed: Unexpected token''"
    by (simp add: v2 vFail_def)
  have e3: "VerifyResult.error ?v3
              = Some (''Payment verification failed: '' @ cannotRead ''null'' ''x402Version'')"
    by (simp add: v3 vFail_def)
  have created: "createPaymentRequiredResponse ?lib [ex_requirements True] (Some reason)
       = \<lparr>status = 402,
          body = PaymentRequiredBody 1 (or_default (Some reason) ''Payment Required'')
                   [ex_requirements True],
          Response.headers = [(''payment-required'', ''b64:http://localhost/api/ai/agent''),
                              (''content-type'', ''application/json'')]\<rparr>" for reason
    by (simp add: createPaymentRequiredResponse_def encodePaymentRequired_def headers_set_def
          ex_defs asciiLower_def lower_char_def)
  from verification_failure_gives_402 [OF n1, of ex_handler 1700000011000 0]
  obtain r1 where "VerifyResult.error ?v1 = Some r1"
    and w1: "withX402Payment ?lib ex_handler (ex_config True) 1700000010000 1700000010000
               1700000011000 (ex_request []) {} 0
             = (Inr (createPaymentRequiredResponse ?lib
                       [requirementsOf (ex_config True) (ex_request [])] (Some r1)), {}, 0)"
    by blast
  then have r1: "r1 = ''No payment header provided''"
    using e1 by simp
  from verification_failure_gives_402 [OF n2, of ex_handler 1700000011000 0]
  obtain r2 where "VerifyResult.error ?v2 = Some r2"
    and w2: "withX402Payment ?lib ex_handler (ex_config True) 1700000010000 1700000010000
               1700000011000 (ex_request ''garbage'') {} 0
             = (Inr (createPaymentRequiredResponse ?lib
                       [requirementsOf (ex_config True) (ex_request ''garbage'')] (Some r2)),
                {}, 0)"
    by blast
  then have r2: "r2 = ''Payment verification failed: Unexpected token''"
    using e2 by simp
  from verification_failure_gives_402 [OF n3, of ex_handler 1700000011000 0]
  obtain r3 where "VerifyResult.error ?v3 = Some r3"
    and w3: "withX402Payment ?lib ex_handler (ex_config True) 1700000010000 1700000010000
               1700000011000 (ex_request ''null'') {} 0
             = (Inr (createPaymentRequiredResponse ?lib
                       [requirementsOf (ex_config True) (ex_request ''null'')] (Some r3)),
                {}, 0)"
    by blast
  then have r3: "r3 = ''Payment verification failed: '' @ cannotRead ''null'' ''x402Version''"
    using e3 by simp
  show ?thesis
    using w1 w2 w3 unfolding r1 r2 r3 rq created
    by (simp add: or_default_def)
qed

text \<open>
  Claim C5, as stated, fails: a payment whose nonce is the object \<open>{"toString": 1}\<close>
  and which has no signature is accepted under the scheme \<open>exact\<close>; the handler answers
  200; the settlement then fails, because the nonce cannot be printed into the receipt,
  with the error \<open>Settlement failed: Cannot convert object to primitive value\<close>; and
  the response is returned without any \<open>PAYMENT-RESPONSE\<close> header.
\<close>

theorem settlement_failure_not_surfaced_counterexample:
  "verifyPaymentFromRequest (ex_lib ex_table) 1700000010000 1700000010000
      (ex_request ''unprintable'') (ex_requirements False) 31337 {}
     = \<lparr>VerifyResult.valid = True, payload = Some ex_unprintable, error = None\<rparr>
   \<and> settlePayment (ex_lib ex_table) 1700000011000 ex_unprintable (ex_requirements False) None {}
     = (\<lparr>success = False, txHash = None, receipt = None,
         error = Some ''Settlement failed: Cannot convert object to primitive value''\<rparr>, {})
   \<and> withX402Payment (ex_lib ex_table) ex_handler (ex_config False) 1700000010000 1700000010000
        1700000011000 (ex_request ''unprintable'') {} 0
     = (Inr \<lparr>status = 200, body = HandlerBody ''done'', Response.headers = []\<rparr>, {}, Suc 0)
   \<and> headers_get [] ''PAYMENT-RESPONSE'' = None"
  by (simp add: ex_defs ex_unprintable_def string_defs verify_defs property_def field_def
        ageExceeds_def toNumber_def truthyJ_def withX402Payment_def ex_handler_def settle_defs
        addSettlementHeader_def)

text \<open>
  Claim C5, amended. For an accepted request whose handler answers with a status below
  400, \<open>withX402Payment\<close> settles the payment, with no admin signer, and returns the
  handler's response with its status and body. When the settlement fails, the response
  is returned as it is: no \<open>PAYMENT-RESPONSE\<close> header is added, and the failure is not
  surfaced. When it succeeds, the header \<open>PAYMENT-RESPONSE\<close> carries the base64
  encoding of the JSON text of the settlement.
\<close>

theorem settlement_header_only_on_success:
  assumes "VerifyResult.valid
             (verifyPaymentFromRequest lib nowMs nowMsZk request (requirementsOf config request)
                (PaymentConfig.chainId config) used)"
    and "presents request h" and "decodePaymentPayload lib h = Inr p"
    and "handler request w = (Inr response, w')"
    and "status response < 400"
    and "settlePayment lib nowMsSettle p (requirementsOf config request) None used
           = (settlement, marked)"
  shows "\<exists>r. withX402Payment lib handler config nowMs nowMsZk nowMsSettle request used w
               = (Inr r, marked, w')
           \<and> status r = status response \<and> body r = body response
           \<and> (\<not> success settlement \<longrightarrow> r = response)
           \<and> (success settlement \<longrightarrow>
                 headers_get (Response.headers r) ''PAYMENT-RESPONSE''
                   = Some (base64Encode lib (jsonSettlement lib settlement)))"
proof -
  note v = verify_valid [OF assms(2,3,1)]
  have run: "withX402Payment lib handler config nowMs nowMsZk nowMsSettle request used w
               = (Inr (addSettlementHeader lib settlement response), marked, w')"
    using v assms(4,5,6) by (simp add: withX402Payment_def Let_def)
  show ?thesis
    unfolding run
    by (simp add: addSettlementHeader_def encodeSettlementResponse_def headers_get_set)
qed

text \<open>
  The example payment, whose settlement is recorded in the header, and the payment with
  the nonce that cannot be printed, whose response comes back untouched.
\<close>

theorem settlement_header_only_on_success_witness:
  "(case withX402Payment (ex_lib ex_table) ex_handler (ex_config True) 1700000010000
           1700000010000 1700000011000 (ex_request ''zk'') {} 0 of
      (Inl e, used, w) \<Rightarrow> False
    | (Inr r, used, w) \<Rightarrow>
        status r = 200 \<and> body r = HandlerBody ''done''
        \<and> headers_get (Response.headers r) ''PAYMENT-RESPONSE'' = Some ''b64:offchain:n1:0''
        \<and> used = {JStr ''0x01''} \<and> w = Suc 0)
   \<and> withX402Payment (ex_lib ex_table) ex_handler (ex_config False) 1700000010000 1700000010000
        1700000011000 (ex_request ''unprintable'') {} 0
     = (Inr ex_response, {}, Suc 0)"
proof -
  let ?lib = "ex_lib ex_table"
  let ?ok = "\<lparr>success = True, txHash = None, receipt = Some ''offchain:n1:0'', error = None\<rparr>"
  let ?failed = "\<lparr>success = False, txHash = None, receipt = None,
         error = Some ''Settlement failed: Cannot convert object to primitive value''\<rparr>"
  have rq: "requirementsOf (ex_config True) (ex_request ''zk'') = ex_requirements True"
    "requirementsOf (ex_config False) (ex_request ''unprintable'') = ex_requirements False"
    by (simp_all add: ex_requirements_def requirementsOf_def ex_request_def)
  have c: "PaymentConfig.chainId (ex_config True) = 31337"
    "PaymentConfig.chainId (ex_config False) = 31337"
    by (simp_all add: ex_config_def)
  have v1: "VerifyResult.valid
             (verifyPaymentFromRequest ?lib 1700000010000 1700000010000 (ex_request ''zk'')
                (requirementsOf (ex_config True) (ex_request ''zk''))
                (PaymentConfig.chainId (ex_config True)) {})"
    unfolding rq c
    by (simp add: ex_defs string_defs verify_defs embedded verifyPaymentProof_typed check_defs
          ZeroAddress_def isNullifierUsed_def)
  have v2: "VerifyResult.valid
             (verifyPaymentFromRequest ?lib 1700000010000 1700000010000
                (ex_request ''unprintable'')
                (requirementsOf (ex_config False) (ex_request ''unprintable''))
                (PaymentConfig.chainId (ex_config False)) {})"
    unfolding rq c
    by (simp add: ex_defs ex_unprintable_def string_defs verify_defs property_def field_def
          ageExceeds_def toNumber_def truthyJ_def)
  have pres: "presents (ex_request ''zk'') ''zk''"
    "presents (ex_request ''unprintable'') ''unprintable''"
    by (simp_all add: presents_def ex_defs string_defs)
  have dec: "decodePaymentPayload ?lib ''zk'' = Inr (payloadJson ex_zk_payload)"
    "decodePaymentPayload ?lib ''unprintable'' = Inr ex_unprintable"
    by (simp_all add: decodePaymentPayload_def ex_lib_def ex_table_def)
  have h: "ex_handler (ex_request ''zk'') 0 = (Inr ex_response, Suc 0)"
    "ex_handler (ex_request ''unprintable'') 0 = (Inr ex_response, Suc 0)"
    by (simp_all add: ex_handler_def ex_response_def)
  have st: "status ex_response < 400"
    by (simp add: ex_response_def)
  have s1: "settlePayment ?lib 1700000011000 (payloadJson ex_zk_payload)
              (requirementsOf (ex_config True) (ex_request ''zk'')) None {}
              = (?ok, {JStr ''0x01''})"
    unfolding rq by (simp add: ex_defs settle_defs embedded)
  have s2: "settlePayment ?lib 1700000011000 ex_unprintable
              (requirementsOf (ex_config False) (ex_request ''unprintable'')) None {}
              = (?failed, {})"
    unfolding rq
    by (simp add: ex_defs ex_unprintable_def settle_defs property_def field_def truthyJ_def)
  from settlement_header_only_on_success
         [where handler = ex_handler and w = 0, OF v1 pres(1) dec(1) h(1) st s1]
  obtain r1 where
    w1: "withX402Payment ?lib ex_handler (ex_config True) 1700000010000 1700000010000
           1700000011000 (ex_request ''zk'') {} 0 = (Inr r1, {JStr ''0x01''}, Suc 0)"
    and b1: "status r1 = status ex_response" "body r1 = body ex_response"
    and k1: "headers_get (Response.headers r1) ''PAYMENT-RESPONSE''
               = Some (base64Encode ?lib (jsonSettlement ?lib ?ok))"
    by auto
  from settlement_header_only_on_success
         [where handler = ex_handler and w = 0, OF v2 pres(2) dec(2) h(2) st s2]
  have w2: "withX402Payment ?lib ex_handler (ex_config False) 1700000010000 1700000010000
           1700000011000 (ex_request ''unprintable'') {} 0 = (Inr ex_response, {}, Suc 0)"
    by auto
  show ?thesis
    using w2 b1 k1 unfolding w1
    by (simp add: ex_response_def ex_lib_def interpolate_def)
qed

section \<open>Route matching\<close>

lemma replaceStar_append: "replaceStar (xs @ ys) = replaceStar xs @ replaceStar ys"
  by (induction xs) simp_all

lemma replaceStar_keeps:
  "CHR '']'' \<notin> set xs \<Longrightarrow> CHR '']'' \<notin> set (replaceStar xs)"
  by (induction xs) simp_all

lemma replaceStar_nonempty: "xs \<noteq> [] \<Longrightarrow> replaceStar xs \<noteq> []"
  by (cases xs) simp_all

lemma replaceBracket_param:
  assumes "name \<noteq> []" and "CHR '']'' \<notin> set name"
  shows "replaceBracket (CHR ''['' # name @ CHR '']'' # rest) = ''([^/]+)'' @ replaceBracket rest"
proof -
  have all: "\<forall>x\<in>set name. x \<noteq> CHR '']''"
    using assms(2) by blast
  have t: "takeWhile (\<lambda>x. x \<noteq> CHR '']'') (name @ CHR '']'' # rest) = name"
    using all by (simp add: takeWhile_tail)
  have d: "dropWhile (\<lambda>x. x \<noteq> CHR '']'') (name @ CHR '']'' # rest) = CHR '']'' # rest"
    using all by (simp add: dropWhile_append3)
  show ?thesis
    using assms(1) by (simp add: t d)
qed

lemma glob_compile:
  "list_all wellFormed globs \<Longrightarrow>
     regexPattern (concat (map render globs)) = concat (map regexOf globs)"
  unfolding regexPattern_def
proof (induction globs)
  case Nil
  then show ?case by simp
next
  case (Cons g globs)
  then have ih: "replaceBracket (replaceStar (concat (map render globs)))
                   = concat (map regexOf globs)"
    by simp
  have wf: "wellFormed g" using Cons.prems by simp
  show ?case
  proof (cases g)
    case (Lit c)
    then show ?thesis using wf ih by (simp add: replaceStar_append)
  next
    case Star
    then show ?thesis using ih by (simp add: replaceStar_append)
  next
    case (Param name)
    have n: "replaceStar name \<noteq> []" "CHR '']'' \<notin> set (replaceStar name)"
      using wf Param by (simp_all add: replaceStar_nonempty replaceStar_keeps)
    have "replaceStar (concat (map render (g # globs)))
            = CHR ''['' # replaceStar name @ CHR '']'' # replaceStar (concat (map render globs))"
      by (simp add: Param replaceStar_append)
    then show ?thesis
      using replaceBracket_param [OF n] ih by (simp add: Param)
  qed
qed

lemma route_split:
  "CHR '' '' \<notin> set m \<Longrightarrow>
     routeMethod (m @ '' '' @ path) = m \<and> routePath (m @ '' '' @ path) = path"
proof -
  assume "CHR '' '' \<notin> set m"
  then have all: "\<forall>x\<in>set m. x \<noteq> CHR '' ''" by blast
  have "takeWhile (\<lambda>x. x \<noteq> CHR '' '') (m @ CHR '' '' # path) = m"
    using all by (simp add: takeWhile_tail)
  moreover have "dropWhile (\<lambda>x. x \<noteq> CHR '' '') (m @ CHR '' '' # path) = CHR '' '' # path"
    using all by (simp add: dropWhile_append3)
  ultimately show ?thesis
    by (simp add: routeMethod_def routePath_def)
qed

lemma matchPattern_step:
  assumes "wellKeyed r"
  shows "matchPattern lib pathname verb (routeEntry r # rest) =
           (if \<not> tried lib verb r then matchPattern lib pathname verb rest
            else (case tested lib pathname r of
                    Inl e \<Rightarrow> Inl e
                  | Inr True \<Rightarrow> Inr (Some (routeEntry r))
                  | Inr False \<Rightarrow> matchPattern lib pathname verb rest))"
proof -
  obtain m globs config where r: "r = (m, globs, config)"
    by (cases r) blast
  have k: "CHR '' '' \<notin> set m" and wf: "list_all wellFormed globs"
    using assms by (simp_all add: r wellKeyed_def)
  define pattern where "pattern = m @ '' '' @ concat (map render globs)"
  have entry: "routeEntry r = (pattern, config)"
    by (simp add: r routeEntry_def pattern_def)
  have verb: "routeMethod pattern = m"
    and path: "regexPattern (routePath pattern) = concat (map regexOf globs)"
    using route_split [OF k, of "concat (map render globs)"]
    by (simp_all add: pattern_def glob_compile [OF wf])
  have t: "tried lib verb r = (m = toUpperCase lib verb \<or> m = ''*'')"
    "tested lib pathname r
       = regexTest lib (''^'' @ concat (map regexOf globs) @ ''$'') pathname"
    by (simp_all add: r tried_def tested_def)
  show ?thesis
    unfolding entry t by (simp only: matchPattern.simps verb path) auto
qed

lemma matchPattern_find:
  "list_all wellKeyed rs \<Longrightarrow>
   matchPattern lib pathname verb (map routeEntry rs) =
     (case find (\<lambda>r. tried lib verb r \<and> tested lib pathname r \<noteq> Inr False) rs of
        None \<Rightarrow> Inr None
      | Some r \<Rightarrow>
          (case tested lib pathname r of
             Inl e \<Rightarrow> Inl e
           | Inr b \<Rightarrow> Inr (Some (routeEntry r))))"
proof (induction rs)
  case Nil
  then show ?case by simp
next
  case (Cons r rs)
  then have wk: "wellKeyed r" and ih: "matchPattern lib pathname verb (map routeEntry rs) =
     (case find (\<lambda>r. tried lib verb r \<and> tested lib pathname r \<noteq> Inr False) rs of
        None \<Rightarrow> Inr None
      | Some r \<Rightarrow>
          (case tested lib pathname r of
             Inl e \<Rightarrow> Inl e
           | Inr b \<Rightarrow> Inr (Some (routeEntry r))))"
    by simp_all
  show ?case
  proof (cases "tried lib verb r")
    case False
    then show ?thesis
      using ih by (simp add: matchPattern_step [OF wk])
  next
    case t: True
    show ?thesis
    proof (cases "tested lib pathname r")
      case (Inl e)
      then show ?thesis
        using t by (simp add: matchPattern_step [OF wk])
    next
      case (Inr b)
      then show ?thesis
        using t ih by (cases b) (simp_all add: matchPattern_step [OF wk])
    qed
  qed
qed

text \<open>
  Claim C8. \<open>matchRoute\<close> first looks up the exact key made of the upper-cased verb,
  a space and the path, and returns that entry when present. Otherwise, in a table whose
  entries are keyed by a verb without space, a space and a pattern written with plain
  characters, \<open>*\<close> and \<open>[name]\<close>, it goes through the entries in order, skips those
  whose verb is neither the upper-cased request verb nor \<open>*\<close>, and tests the path
  against the regular expression that has \<open>.*\<close> for each \<open>*\<close> and \<open>([^/]+)\<close> for
  each \<open>[name]\<close>, anchored at both ends. The first entry whose test is not false
  decides: it is returned (or the exception of the regular expression escapes); with no
  such entry the result is null.
\<close>

theorem matchRoute_first_match:
  "(map_of routes (toUpperCase lib verb @ '' '' @ pathname) = Some config
      \<longrightarrow> matchRoute lib pathname verb routes
            = Inr (Some (toUpperCase lib verb @ '' '' @ pathname, config)))
   \<and> (list_all wellKeyed rs
        \<and> map_of (map routeEntry rs) (toUpperCase lib verb @ '' '' @ pathname) = None
      \<longrightarrow> matchRoute lib pathname verb (map routeEntry rs) =
           (case find (\<lambda>r. tried lib verb r \<and> tested lib pathname r \<noteq> Inr False) rs of
              None \<Rightarrow> Inr None
            | Some r \<Rightarrow>
                (case tested lib pathname r of
                   Inl e \<Rightarrow> Inl e
                 | Inr b \<Rightarrow> Inr (Some (routeEntry r)))))"
proof (intro conjI impI)
  assume "map_of routes (toUpperCase lib verb @ '' '' @ pathname) = Some config"
  then show "matchRoute lib pathname verb routes
            = Inr (Some (toUpperCase lib verb @ '' '' @ pathname, config))"
    by (simp add: matchRoute_def)
next
  assume a: "list_all wellKeyed rs
        \<and> map_of (map routeEntry rs) (toUpperCase lib verb @ '' '' @ pathname) = None"
  then show "matchRoute lib pathname verb (map routeEntry rs) =
           (case find (\<lambda>r. tried lib verb r \<and> tested lib pathname r \<noteq> Inr False) rs of
              None \<Rightarrow> Inr None
            | Some r \<Rightarrow>
                (case tested lib pathname r of
                   Inl e \<Rightarrow> Inl e
                 | Inr b \<Rightarrow> Inr (Some (routeEntry r))))"
    by (simp add: matchRoute_def matchPattern_find)
qed

lemmas route_defs = tried_def tested_def ex_route_list_def ex_lib_def ex_regexTest_def
  asciiUpper_def upper_char_def routeEntry_def

text \<open>
  The example table: an exact key found with a lower-case verb, a \<open>[id]\<close> pattern that
  matches one segment, not two, and not under another verb, an exact key that is not
  found under another verb, and a \<open>*\<close> verb with a \<open>*\<close> path.
\<close>

theorem matchRoute_first_match_witness:
  "ex_routes = [(''POST /api/ai/agent'', ex_config_of ''agent''),
                (''GET /api/posts/[id]'', ex_config_of ''post''),
                (''* /api/files/*'', ex_config_of ''files'')]
   \<and> matchRoute (ex_lib []) ''/api/ai/agent'' ''post'' ex_routes
       = Inr (Some (''POST /api/ai/agent'', ex_config_of ''agent''))
   \<and> matchRoute (ex_lib []) ''/api/posts/42'' ''get'' ex_routes
       = Inr (Some (''GET /api/posts/[id]'', ex_config_of ''post''))
   \<and> matchRoute (ex_lib []) ''/api/posts/42/like'' ''GET'' ex_routes = Inr None
   \<and> matchRoute (ex_lib []) ''/api/posts/42'' ''POST'' ex_routes = Inr None
   \<and> matchRoute (ex_lib []) ''/api/ai/agent'' ''GET'' ex_routes = Inr None
   \<and> matchRoute (ex_lib []) ''/api/files/a/b'' ''DELETE'' ex_routes
       = Inr (Some (''* /api/files/*'', ex_config_of ''files''))"
proof -
  let ?lib = "ex_lib []"
  let ?find = "\<lambda>pathname verb.
     case find (\<lambda>r. tried ?lib verb r \<and> tested ?lib pathname r \<noteq> Inr False) ex_route_list of
        None \<Rightarrow> Inr None
      | Some r \<Rightarrow>
          (case tested ?lib pathname r of
             Inl e \<Rightarrow> Inl e
           | Inr b \<Rightarrow> Inr (Some (routeEntry r)))"
  have routes: "ex_routes = [(''POST /api/ai/agent'', ex_config_of ''agent''),
                (''GET /api/posts/[id]'', ex_config_of ''post''),
                (''* /api/files/*'', ex_config_of ''files'')]"
    by (simp add: ex_routes_def ex_route_list_def routeEntry_def)
  have wk: "list_all wellKeyed ex_route_list"
    by (simp add: ex_route_list_def wellKeyed_def list_all_iff)
  have k1: "map_of ex_routes (toUpperCase ?lib ''post'' @ '' '' @ ''/api/ai/agent'')
              = Some (ex_config_of ''agent'')"
    by (simp add: routes ex_lib_def asciiUpper_def upper_char_def)
  have p1: "toUpperCase ?lib ''post'' @ '' '' @ ''/api/ai/agent'' = ''POST /api/ai/agent''"
    by (simp add: ex_lib_def asciiUpper_def upper_char_def)
  have k2: "map_of ex_routes (toUpperCase ?lib ''get'' @ '' '' @ ''/api/posts/42'') = None"
    by (simp add: routes ex_lib_def asciiUpper_def upper_char_def)
  have f2: "?find ''/api/posts/42'' ''get''
              = Inr (Some (''GET /api/posts/[id]'', ex_config_of ''post''))"
    by (simp add: route_defs)
  have k3: "map_of ex_routes (toUpperCase ?lib ''GET'' @ '' '' @ ''/api/posts/42/like'') = None"
    by (simp add: routes ex_lib_def asciiUpper_def upper_char_def)
  have f3: "?find ''/api/posts/42/like'' ''GET'' = Inr None"
    by (simp add: route_defs)
  have k4: "map_of ex_routes (toUpperCase ?lib ''POST'' @ '' '' @ ''/api/posts/42'') = None"
    by (simp add: routes ex_lib_def asciiUpper_def upper_char_def)
  have f4: "?find ''/api/posts/42'' ''POST'' = Inr None"
    by (simp add: route_defs)
  have k5: "map_of ex_routes (toUpperCase ?lib ''GET'' @ '' '' @ ''/api/ai/agent'') = None"
    by (simp add: routes ex_lib_def asciiUpper_def upper_char_def)
  have f5: "?find ''/api/ai/agent'' ''GET'' = Inr None"
    by (simp add: route_defs)
  have k6: "map_of ex_routes (toUpperCase ?lib ''DELETE'' @ '' '' @ ''/api/files/a/b'') = None"
    by (simp add: routes ex_lib_def asciiUpper_def upper_char_def)
  have f6: "?find ''/api/files/a/b'' ''DELETE''
              = Inr (Some (''* /api/files/*'', ex_config_of ''files''))"
    by (simp add: route_defs)
  note a1 = matchRoute_first_match [where routes = ex_routes and verb = "''post''"
              and pathname = "''/api/ai/agent''" and config = "ex_config_of ''agent''"
              and lib = ?lib and rs = "[]"]
  note a2 = matchRoute_first_match [where rs = ex_route_list and verb = "''get''"
              and pathname = "''/api/posts/42''" and lib = ?lib and routes = "[]"]
  note a3 = matchRoute_first_match [where rs = ex_route_list and verb = "''GET''"
              and pathname = "''/api/posts/42/like''" and lib = ?lib and routes = "[]"]
  note a4 = matchRoute_first_match [where rs = ex_route_list and verb = "''POST''"
              and pathname = "''/api/posts/42''" and lib = ?lib and routes = "[]"]
  note a5 = matchRoute_first_match [where rs = ex_route_list and verb = "''GET''"
              and pathname = "''/api/ai/agent''" and lib = ?lib and routes = "[]"]
  note a6 = matchRoute_first_match [where rs = ex_route_list and verb = "''DELETE''"
              and pathname = "''/api/files/a/b''" and lib = ?lib and routes = "[]"]
  have 1: "matchRoute ?lib ''/api/ai/agent'' ''post'' ex_routes
             = Inr (Some (''POST /api/ai/agent'', ex_config_of ''agent''))"
    using a1 k1 unfolding p1 by blast
  have 2: "matchRoute ?lib ''/api/posts/42'' ''get'' ex_routes
             = Inr (Some (''GET /api/posts/[id]'', ex_config_of ''post''))"
    using a2 k2 wk unfolding f2 ex_routes_def by blast
  have 3: "matchRoute ?lib ''/api/posts/42/like'' ''GET'' ex_routes = Inr None"
    using a3 k3 wk unfolding f3 ex_routes_def by blast
  have 4: "matchRoute ?lib ''/api/posts/42'' ''POST'' ex_routes = Inr None"
    using a4 k4 wk unfolding f4 ex_routes_def by blast
  have 5: "matchRoute ?lib ''/api/ai/agent'' ''GET'' ex_routes = Inr None"
    using a5 k5 wk unfolding f5 ex_routes_def by blast
  have 6: "matchRoute ?lib ''/api/files/a/b'' ''DELETE'' ex_routes
             = Inr (Some (''* /api/files/*'', ex_config_of ''files''))"
    using a6 k6 wk unfolding f6 ex_routes_def by blast
  show ?thesis
    using routes 1 2 3 4 5 6 by blast
qed

end
